theory Spec2Isabelle
  imports Main "HOL-Library.Word"
begin

unbundle bit_operations_syntax

section \<open>Machine types and shared constants\<close>

type_synonym uint32_t = "32 word"
type_synonym uint8_t = "8 word"

text \<open>
  A C array is a function from the element index to the element. The indices that the
  program computes lie inside the arrays (last section), so the values of the function
  outside an array's bounds never matter.
\<close>

type_synonym 'a array = "nat \<Rightarrow> 'a"

text \<open>
  Modelled from the spec: the header \<^verbatim>\<open>memory_subsystem_constants.h\<close> is not among the
  sources. A cache line is 8 words; bit 0 of a control byte is read-enable and bit 1 is
  write-enable.
\<close>

definition WORDS_PER_CACHE_LINE :: nat where
  "WORDS_PER_CACHE_LINE = 8"

definition READ_ENABLE_MASK :: uint8_t where
  "READ_ENABLE_MASK = 0x1"

definition WRITE_ENABLE_MASK :: uint8_t where
  "WRITE_ENABLE_MASK = 0x2"

text \<open>
  The loop \<^verbatim>\<open>for (i = 0; i < n; i++) dst[i] = src[i];\<close> that every level uses to move a
  cache line.
\<close>

definition copy_words :: "nat \<Rightarrow> uint32_t array \<Rightarrow> uint32_t array \<Rightarrow> uint32_t array" where
  "copy_words n src dst = fold (\<lambda>i d. d(i := src i)) [0..<n] dst"

text \<open>The words of a cache line, in order (used to compare lines).\<close>

definition line_words :: "uint32_t array \<Rightarrow> uint32_t list" where
  "line_words a = map a [0..<WORDS_PER_CACHE_LINE]"

section \<open>L2 cache (l2\_cache.c)\<close>

definition L2_NUM_CACHE_ENTRIES :: nat where
  "L2_NUM_CACHE_ENTRIES = 2 ^ 15"

record L2_CACHE_ENTRY =
  v_d_tag :: uint32_t
  l2_cache_line :: "uint32_t array"

definition L2_VBIT_MASK :: uint32_t where
  "L2_VBIT_MASK = push_bit 31 0x1"

definition L2_DIRTYBIT_MASK :: uint32_t where
  "L2_DIRTYBIT_MASK = push_bit 30 0x1"

definition L2_ENTRY_TAG_MASK :: uint32_t where
  "L2_ENTRY_TAG_MASK = 0xfff"

definition L2_ADDRESS_TAG_MASK :: uint32_t where
  "L2_ADDRESS_TAG_MASK = push_bit 20 0xfff"

definition L2_ADDRESS_TAG_SHIFT :: nat where
  "L2_ADDRESS_TAG_SHIFT = 20"

definition L2_INDEX_MASK :: uint32_t where
  "L2_INDEX_MASK = push_bit 5 0x7fff"

definition L2_INDEX_SHIFT :: nat where
  "L2_INDEX_SHIFT = 5"

text \<open>The loop of \<^verbatim>\<open>l2_initialize\<close> clears the valid bit of each entry and nothing else.\<close>

definition l2_initialize :: "L2_CACHE_ENTRY array \<Rightarrow> L2_CACHE_ENTRY array" where
  "l2_initialize l2 =
     fold (\<lambda>i c. c(i := (c i)\<lparr>v_d_tag := v_d_tag (c i) AND NOT L2_VBIT_MASK\<rparr>))
       [0..<L2_NUM_CACHE_ENTRIES] l2"

definition l2_index_bits :: "uint32_t \<Rightarrow> uint32_t" where
  "l2_index_bits address = drop_bit L2_INDEX_SHIFT (address AND L2_INDEX_MASK)"

definition l2_tag_bits :: "uint32_t \<Rightarrow> uint32_t" where
  "l2_tag_bits address = drop_bit L2_ADDRESS_TAG_SHIFT (address AND L2_ADDRESS_TAG_MASK)"

definition l2_valid :: "L2_CACHE_ENTRY \<Rightarrow> bool" where
  "l2_valid e = (v_d_tag e AND L2_VBIT_MASK \<noteq> 0)"

definition l2_dirty :: "L2_CACHE_ENTRY \<Rightarrow> bool" where
  "l2_dirty e = (v_d_tag e AND L2_DIRTYBIT_MASK \<noteq> 0)"

definition l2_entry_tag :: "L2_CACHE_ENTRY \<Rightarrow> uint32_t" where
  "l2_entry_tag e = v_d_tag e AND L2_ENTRY_TAG_MASK"

text \<open>
  \<^verbatim>\<open>l2_cache_access\<close>: the arguments are the address, the caller's \<^verbatim>\<open>write_data\<close> array,
  the control byte, the caller's \<^verbatim>\<open>read_data\<close> array and status byte as they are before
  the call, and the cache. The result is the cache, \<^verbatim>\<open>read_data\<close> and the status byte
  after the call.
\<close>

definition l2_cache_access ::
  "uint32_t \<Rightarrow> uint32_t array \<Rightarrow> uint8_t \<Rightarrow> uint32_t array \<Rightarrow> uint8_t \<Rightarrow>
   L2_CACHE_ENTRY array \<Rightarrow> L2_CACHE_ENTRY array \<times> uint32_t array \<times> uint8_t" where
  "l2_cache_access address write_data control read_data status l2 =
     (let index_bits = unat (l2_index_bits address);
          tag_bits = l2_tag_bits address;
          e = l2 index_bits
      in if \<not> l2_valid e \<or> l2_entry_tag e \<noteq> tag_bits
         then (l2, read_data, status AND NOT 0x1)
         else
           let read_data' =
                 (if control AND READ_ENABLE_MASK \<noteq> 0
                  then copy_words WORDS_PER_CACHE_LINE (l2_cache_line e) read_data
                  else read_data);
               l2' =
                 (if control AND WRITE_ENABLE_MASK \<noteq> 0
                  then l2(index_bits :=
                         \<lparr>v_d_tag = v_d_tag e OR L2_DIRTYBIT_MASK,
                          l2_cache_line =
                            copy_words WORDS_PER_CACHE_LINE write_data (l2_cache_line e)\<rparr>)
                  else l2)
           in (l2', read_data', status OR 0x1))"

text \<open>
  \<^verbatim>\<open>l2_insert_line\<close>: besides the cache, the result holds the three output parameters
  \<^verbatim>\<open>evicted_writeback_address\<close>, \<^verbatim>\<open>evicted_writeback_data\<close> and \<^verbatim>\<open>status\<close>; their
  values before the call are arguments, since the first branch leaves two of them alone.
\<close>

definition l2_insert_line ::
  "uint32_t \<Rightarrow> uint32_t array \<Rightarrow> uint32_t \<Rightarrow> uint32_t array \<Rightarrow> uint8_t \<Rightarrow>
   L2_CACHE_ENTRY array \<Rightarrow> L2_CACHE_ENTRY array \<times> uint32_t \<times> uint32_t array \<times> uint8_t" where
  "l2_insert_line address write_data evicted_writeback_address evicted_writeback_data status l2 =
     (let evicted_index_bits = l2_index_bits address;
          evicted_tag_bits = l2_tag_bits address;
          e = l2 (unat evicted_index_bits);
          e' = \<lparr>v_d_tag = L2_VBIT_MASK OR evicted_tag_bits,
                l2_cache_line =
                  copy_words WORDS_PER_CACHE_LINE write_data (l2_cache_line e)\<rparr>
      in if \<not> l2_dirty e \<or> \<not> l2_valid e
         then (l2(unat evicted_index_bits := e'),
               evicted_writeback_address, evicted_writeback_data, status AND NOT 0x1)
         else (l2(unat evicted_index_bits := e'),
               push_bit L2_ADDRESS_TAG_SHIFT (v_d_tag e AND L2_ENTRY_TAG_MASK)
                 OR push_bit L2_INDEX_SHIFT evicted_index_bits,
               copy_words WORDS_PER_CACHE_LINE (l2_cache_line e) evicted_writeback_data,
               status OR 0x1))"

section \<open>L1 cache\<close>

definition L1_LINES_PER_SET :: nat where
  "L1_LINES_PER_SET = 4"

definition L1_NUM_CACHE_SETS :: nat where
  "L1_NUM_CACHE_SETS = 512"

record L1_CACHE_ENTRY =
  v_r_d_tag :: uint32_t
  l1_cache_line :: "uint32_t array"

record L1_CACHE_SET =
  lines :: "L1_CACHE_ENTRY array"

definition L1_VBIT_MASK :: uint32_t where
  "L1_VBIT_MASK = push_bit 31 1"

definition L1_RBIT_MASK :: uint32_t where
  "L1_RBIT_MASK = push_bit 30 1"

definition L1_DIRTYBIT_MASK :: uint32_t where
  "L1_DIRTYBIT_MASK = push_bit 29 1"

definition L1_ENTRY_TAG_MASK :: uint32_t where
  "L1_ENTRY_TAG_MASK = 0x3ffff"

definition WORD_OFFSET_MASK :: uint32_t where
  "WORD_OFFSET_MASK = 0x1C"

definition WORD_OFFSET_SHIFT :: nat where
  "WORD_OFFSET_SHIFT = 2"

definition L1_ADDRESS_TAG_MASK :: uint32_t where
  "L1_ADDRESS_TAG_MASK = push_bit 14 0x3FFFF"

definition L1_ADDRESS_TAG_SHIFT :: nat where
  "L1_ADDRESS_TAG_SHIFT = 14"

definition L1_SET_INDEX_MASK :: uint32_t where
  "L1_SET_INDEX_MASK = push_bit 5 0x1ff"

definition L1_SET_INDEX_SHIFT :: nat where
  "L1_SET_INDEX_SHIFT = 5"

definition L1_CACHE_HIT_MASK :: uint8_t where
  "L1_CACHE_HIT_MASK = 0x1"

text \<open>The assignment \<^verbatim>\<open>l1_cache[i].lines[j] = f(l1_cache[i].lines[j])\<close>.\<close>

definition l1_entry_update ::
  "nat \<Rightarrow> nat \<Rightarrow> (L1_CACHE_ENTRY \<Rightarrow> L1_CACHE_ENTRY) \<Rightarrow> L1_CACHE_SET array \<Rightarrow> L1_CACHE_SET array" where
  "l1_entry_update i j f l1 = l1(i := (l1 i)\<lparr>lines := (lines (l1 i))(j := f (lines (l1 i) j))\<rparr>)"

definition l1_initialize :: "L1_CACHE_SET array \<Rightarrow> L1_CACHE_SET array" where
  "l1_initialize l1 =
     fold (\<lambda>i c. fold (\<lambda>j. l1_entry_update i j (\<lambda>e. e\<lparr>v_r_d_tag := 0\<rparr>)) [0..<L1_LINES_PER_SET] c)
       [0..<L1_NUM_CACHE_SETS] l1"

definition l1_index_set_bits :: "uint32_t \<Rightarrow> uint32_t" where
  "l1_index_set_bits address = drop_bit L1_SET_INDEX_SHIFT (address AND L1_SET_INDEX_MASK)"

definition l1_tag_bits :: "uint32_t \<Rightarrow> uint32_t" where
  "l1_tag_bits address = drop_bit L1_ADDRESS_TAG_SHIFT (address AND L1_ADDRESS_TAG_MASK)"

definition l1_word_offset_bits :: "uint32_t \<Rightarrow> uint32_t" where
  "l1_word_offset_bits address = drop_bit WORD_OFFSET_SHIFT (address AND WORD_OFFSET_MASK)"

definition l1_valid :: "L1_CACHE_ENTRY \<Rightarrow> bool" where
  "l1_valid e = (v_r_d_tag e AND L1_VBIT_MASK \<noteq> 0)"

definition l1_reference :: "L1_CACHE_ENTRY \<Rightarrow> bool" where
  "l1_reference e = (v_r_d_tag e AND L1_RBIT_MASK \<noteq> 0)"

definition l1_dirty :: "L1_CACHE_ENTRY \<Rightarrow> bool" where
  "l1_dirty e = (v_r_d_tag e AND L1_DIRTYBIT_MASK \<noteq> 0)"

definition l1_entry_tag :: "L1_CACHE_ENTRY \<Rightarrow> uint32_t" where
  "l1_entry_tag e = v_r_d_tag e AND L1_ENTRY_TAG_MASK"

text \<open>
  The search loop of \<^verbatim>\<open>l1_cache_access\<close> over the ways of a set: the first way whose
  valid bit is set and whose tag matches, if any. Nothing is written before the loop finds
  one.
\<close>

primrec l1_find_hit :: "L1_CACHE_SET \<Rightarrow> uint32_t \<Rightarrow> nat list \<Rightarrow> nat option" where
  "l1_find_hit s tag_bits [] = None"
| "l1_find_hit s tag_bits (i # is) =
     (if l1_valid (lines s i) \<and> l1_entry_tag (lines s i) = tag_bits then Some i
      else l1_find_hit s tag_bits is)"

text \<open>
  \<^verbatim>\<open>l1_cache_access\<close> moves one word. \<^verbatim>\<open>read_data\<close> and \<^verbatim>\<open>status\<close> are the contents of
  the two output parameters before the call; the result holds the cache and the two
  output parameters after the call.
\<close>

definition l1_cache_access ::
  "uint32_t \<Rightarrow> uint32_t \<Rightarrow> uint8_t \<Rightarrow> uint32_t \<Rightarrow> uint8_t \<Rightarrow>
   L1_CACHE_SET array \<Rightarrow> L1_CACHE_SET array \<times> uint32_t \<times> uint8_t" where
  "l1_cache_access address write_data control read_data status l1 =
     (let index_set_bits = unat (l1_index_set_bits address);
          tag_bits = l1_tag_bits address;
          word_offset_bits = unat (l1_word_offset_bits address)
      in case l1_find_hit (l1 index_set_bits) tag_bits [0..<L1_LINES_PER_SET] of
           Some i \<Rightarrow>
             let e = lines (l1 index_set_bits) i;
                 e1 = e\<lparr>v_r_d_tag := v_r_d_tag e OR L1_RBIT_MASK\<rparr>;
                 read_data' =
                   (if control AND READ_ENABLE_MASK \<noteq> 0
                    then l1_cache_line e1 word_offset_bits else read_data);
                 e2 =
                   (if control AND WRITE_ENABLE_MASK \<noteq> 0
                    then \<lparr>v_r_d_tag = v_r_d_tag e1 OR L1_DIRTYBIT_MASK,
                          l1_cache_line = (l1_cache_line e1)(word_offset_bits := write_data)\<rparr>
                    else e1)
             in (l1_entry_update index_set_bits i (\<lambda>_. e2) l1, read_data',
                 status OR L1_CACHE_HIT_MASK)
         | None \<Rightarrow> (l1, read_data, status AND NOT L1_CACHE_HIT_MASK))"

text \<open>
  The loop of \<^verbatim>\<open>l1_insert_line\<close>. It stops with \<open>Inl i\<close> at the first way \<open>i\<close> whose valid
  bit is zero (the procedure then fills that way and returns); otherwise it runs to the
  end and yields \<open>Inr (r0_d0_index, r0_d1_index, r1_d0_index)\<close>, where \<^verbatim>\<open>~0x0\<close> stands for
  "none seen".
\<close>

fun l1_scan ::
  "L1_CACHE_SET \<Rightarrow> nat list \<Rightarrow> uint32_t \<times> uint32_t \<times> uint32_t \<Rightarrow>
   nat + uint32_t \<times> uint32_t \<times> uint32_t" where
  "l1_scan s [] idx = Inr idx"
| "l1_scan s (i # is) (r0_d0_index, r0_d1_index, r1_d0_index) =
     (let e = lines s i
      in if \<not> l1_valid e then Inl i
         else if \<not> l1_reference e \<and> \<not> l1_dirty e
         then l1_scan s is
                (if r0_d0_index = NOT 0x0 then word_of_nat i else r0_d0_index,
                 r0_d1_index, r1_d0_index)
         else if \<not> l1_reference e \<and> l1_dirty e
         then l1_scan s is
                (r0_d0_index,
                 if r0_d1_index = NOT 0x0 then word_of_nat i else r0_d1_index,
                 r1_d0_index)
         else if l1_reference e \<and> \<not> l1_dirty e
         then l1_scan s is
                (r0_d0_index, r0_d1_index,
                 if r1_d0_index = NOT 0x0 then word_of_nat i else r1_d0_index)
         else l1_scan s is (r0_d0_index, r0_d1_index, r1_d0_index))"

text \<open>The choice of \<^verbatim>\<open>curr_entry\<close> after the loop.\<close>

definition l1_curr_entry :: "uint32_t \<times> uint32_t \<times> uint32_t \<Rightarrow> uint32_t" where
  "l1_curr_entry idx =
     (case idx of (r0_d0_index, r0_d1_index, r1_d0_index) \<Rightarrow>
        if r0_d0_index \<noteq> NOT 0x0 then r0_d0_index
        else if r0_d1_index \<noteq> NOT 0x0 then r0_d1_index
        else if r1_d0_index \<noteq> NOT 0x0 then r1_d0_index
        else 0)"

text \<open>The way that \<^verbatim>\<open>l1_insert_line\<close> writes the new line to, for a given set.\<close>

definition l1_selected_way :: "L1_CACHE_SET \<Rightarrow> nat" where
  "l1_selected_way s =
     (case l1_scan s [0..<L1_LINES_PER_SET] (NOT 0x0, NOT 0x0, NOT 0x0) of
        Inl i \<Rightarrow> i
      | Inr idx \<Rightarrow> unat (l1_curr_entry idx))"

definition l1_insert_line ::
  "uint32_t \<Rightarrow> uint32_t array \<Rightarrow> uint32_t \<Rightarrow> uint32_t array \<Rightarrow> uint8_t \<Rightarrow>
   L1_CACHE_SET array \<Rightarrow> L1_CACHE_SET array \<times> uint32_t \<times> uint32_t array \<times> uint8_t" where
  "l1_insert_line address write_data evicted_writeback_address evicted_writeback_data status l1 =
     (let index_set_bits = l1_index_set_bits address;
          tag_bits = l1_tag_bits address;
          s = l1 (unat index_set_bits)
      in case l1_scan s [0..<L1_LINES_PER_SET] (NOT 0x0, NOT 0x0, NOT 0x0) of
           Inl i \<Rightarrow>
             let e = lines s i;
                 v1 = v_r_d_tag e OR L1_VBIT_MASK;
                 v2 = v1 AND NOT L1_DIRTYBIT_MASK;
                 v3 = v2 AND NOT L1_RBIT_MASK;
                 v4 = (v3 AND NOT L1_ENTRY_TAG_MASK) OR tag_bits;
                 e' = \<lparr>v_r_d_tag = v4,
                       l1_cache_line =
                         copy_words WORDS_PER_CACHE_LINE write_data (l1_cache_line e)\<rparr>
             in (l1_entry_update (unat index_set_bits) i (\<lambda>_. e') l1,
                 evicted_writeback_address, evicted_writeback_data,
                 status AND NOT L1_CACHE_HIT_MASK)
         | Inr idx \<Rightarrow>
             let curr_entry = unat (l1_curr_entry idx);
                 e = lines s curr_entry;
                 v1 = v_r_d_tag e OR L1_VBIT_MASK;
                 v2 = v1 AND NOT L1_DIRTYBIT_MASK;
                 v3 = (v2 AND NOT L1_ENTRY_TAG_MASK) OR tag_bits;
                 e' = \<lparr>v_r_d_tag = v3,
                       l1_cache_line = copy_words 8 write_data (l1_cache_line e)\<rparr>;
                 l1' = l1_entry_update (unat index_set_bits) curr_entry (\<lambda>_. e') l1
             in if l1_dirty e
                then (l1',
                      push_bit L1_ADDRESS_TAG_SHIFT (v_r_d_tag e AND L1_ENTRY_TAG_MASK)
                        OR push_bit L1_SET_INDEX_SHIFT index_set_bits,
                      copy_words 8 (l1_cache_line e) evicted_writeback_data,
                      status OR L1_CACHE_HIT_MASK)
                else (l1', evicted_writeback_address, evicted_writeback_data,
                      status AND NOT L1_CACHE_HIT_MASK))"

definition l1_clear_r_bits :: "L1_CACHE_SET array \<Rightarrow> L1_CACHE_SET array" where
  "l1_clear_r_bits l1 =
     fold (\<lambda>i c. fold (\<lambda>j. l1_entry_update i j
                            (\<lambda>e. e\<lparr>v_r_d_tag := v_r_d_tag e AND NOT L1_RBIT_MASK\<rparr>))
                   [0..<L1_LINES_PER_SET] c)
       [0..<L1_NUM_CACHE_SETS] l1"

section \<open>Main memory\<close>

datatype fatal = SizeNotLineMultiple | AddressOutOfRange

text \<open>The two globals of the main memory: the word array and its size in bytes.\<close>

record MAIN_MEMORY =
  main_memory :: "uint32_t array"
  main_memory_size_in_bytes :: uint32_t

text \<open>
  \<^verbatim>\<open>exit(1)\<close> is the result \<open>Inl\<close>. The block that \<^verbatim>\<open>malloc\<close> returns has indeterminate
  contents, for which the model takes the contents of the old array; the loop then writes
  a zero to each of its \<^verbatim>\<open>size_in_bytes / 4\<close> words.
\<close>

definition main_memory_initialize :: "uint32_t \<Rightarrow> MAIN_MEMORY \<Rightarrow> fatal + MAIN_MEMORY" where
  "main_memory_initialize size_in_bytes mm =
     (if size_in_bytes AND 0x1F \<noteq> 0 then Inl SizeNotLineMultiple
      else Inr \<lparr>main_memory =
                  fold (\<lambda>i m. m(i := 0)) [0..<unat (size_in_bytes div 4)] (main_memory mm),
                main_memory_size_in_bytes = size_in_bytes\<rparr>)"

definition CACHE_LINE_ADDRESS_MASK :: uint32_t where
  "CACHE_LINE_ADDRESS_MASK = NOT 0x1f"

definition main_memory_access ::
  "uint32_t \<Rightarrow> uint32_t array \<Rightarrow> uint8_t \<Rightarrow> uint32_t array \<Rightarrow> MAIN_MEMORY \<Rightarrow>
   fatal + MAIN_MEMORY \<times> uint32_t array" where
  "main_memory_access address write_data control read_data mm =
     (if address \<ge> main_memory_size_in_bytes mm then Inl AddressOutOfRange
      else
        let cache_line_address = drop_bit 2 (address AND CACHE_LINE_ADDRESS_MASK);
            a = cache_line_address;
            read_data' =
              (if control AND READ_ENABLE_MASK \<noteq> 0
               then fold (\<lambda>i r. r(i := main_memory mm (unat (a + word_of_nat i))))
                      [0..<WORDS_PER_CACHE_LINE] read_data
               else read_data);
            m' =
              (if control AND WRITE_ENABLE_MASK \<noteq> 0
               then fold (\<lambda>i m. m(unat (a + word_of_nat i) := write_data i))
                      [0..<WORDS_PER_CACHE_LINE] (main_memory mm)
               else main_memory mm)
        in Inr (mm\<lparr>main_memory := m'\<rparr>, read_data'))"

section \<open>Memory subsystem controller (memory\_subsystem.c)\<close>

text \<open>The global state of the three levels and the two miss counters.\<close>

record memory_subsystem =
  l1_cache :: "L1_CACHE_SET array"
  l2_cache :: "L2_CACHE_ENTRY array"
  mem :: MAIN_MEMORY
  num_l1_misses :: uint32_t
  num_l2_misses :: uint32_t

text \<open>
  The controller's procedures declare their locals without initialising them, so a local
  holds an indeterminate value until it is first written. The model takes these values as
  an argument: one record for each activation of a miss handler.
\<close>

record locals =
  status_0 :: uint8_t
  line_0 :: "uint32_t array"
  write_data_0 :: "uint32_t array"
  evicted_writeback_address_0 :: uint32_t
  evicted_writeback_data_0 :: "uint32_t array"
  temp_0 :: "uint32_t array"

text \<open>
  The indeterminate values for one call of \<^verbatim>\<open>memory_access\<close>: its own \<^verbatim>\<open>status\<close>, the
  locals of \<^verbatim>\<open>memory_handle_l1_miss\<close>, and the locals of the two calls of
  \<^verbatim>\<open>memory_handle_l2_miss\<close> (for the read of the missing line and for the write of the
  evicted line).
\<close>

record stack =
  access_status_0 :: uint8_t
  l1_miss_locals :: locals
  l2_read_miss_locals :: locals
  l2_write_miss_locals :: locals

text \<open>
  The \<^verbatim>\<open>NULL\<close> that \<^verbatim>\<open>memory_handle_l1_miss\<close> passes for \<^verbatim>\<open>write_data\<close> when it reads from
  L2. The callee reads \<^verbatim>\<open>write_data\<close> only when write-enable is set, so the value never
  matters.
\<close>

definition NULL_line :: "uint32_t array" where
  "NULL_line = (\<lambda>_. 0)"

definition memory_subsystem_initialize ::
  "uint32_t \<Rightarrow> memory_subsystem \<Rightarrow> fatal + memory_subsystem" where
  "memory_subsystem_initialize memory_size_in_bytes s =
     (case main_memory_initialize memory_size_in_bytes (mem s) of
        Inl e \<Rightarrow> Inl e
      | Inr mm \<Rightarrow>
          Inr \<lparr>l1_cache = l1_initialize (l1_cache s),
               l2_cache = l2_initialize (l2_cache s),
               mem = mm,
               num_l1_misses = 0,
               num_l2_misses = 0\<rparr>)"

definition memory_handle_l2_miss ::
  "locals \<Rightarrow> uint32_t \<Rightarrow> uint8_t \<Rightarrow> memory_subsystem \<Rightarrow> fatal + memory_subsystem" where
  "memory_handle_l2_miss loc address control s =
     (case (if control AND READ_ENABLE_MASK \<noteq> 0
            then main_memory_access address (write_data_0 loc) READ_ENABLE_MASK
                   (line_0 loc) (mem s)
            else Inr (mem s, line_0 loc)) of
        Inl e \<Rightarrow> Inl e
      | Inr (mm1, cache_line) \<Rightarrow>
          (case l2_insert_line address cache_line (evicted_writeback_address_0 loc)
                  (evicted_writeback_data_0 loc) (status_0 loc) (l2_cache s) of
             (l2', evicted_writeback_address, evicted_writeback_data, status) \<Rightarrow>
               if status AND L1_CACHE_HIT_MASK \<noteq> 0
               then (case main_memory_access evicted_writeback_address evicted_writeback_data
                             WRITE_ENABLE_MASK (temp_0 loc) mm1 of
                       Inl e \<Rightarrow> Inl e
                     | Inr (mm2, temp) \<Rightarrow> Inr (s\<lparr>l2_cache := l2', mem := mm2\<rparr>))
               else Inr (s\<lparr>l2_cache := l2', mem := mm1\<rparr>)))"

text \<open>
  The first half of \<^verbatim>\<open>memory_handle_l1_miss\<close>: read the line from L2, through the L2 miss
  handler when L2 misses. The result is the state with \<^verbatim>\<open>read_data\<close> and \<^verbatim>\<open>status\<close>.
\<close>

definition l1_miss_fetch ::
  "locals \<Rightarrow> locals \<Rightarrow> uint32_t \<Rightarrow> memory_subsystem \<Rightarrow>
   fatal + memory_subsystem \<times> uint32_t array \<times> uint8_t" where
  "l1_miss_fetch loc loc_r address s =
     (case l2_cache_access address NULL_line READ_ENABLE_MASK (line_0 loc) (status_0 loc)
             (l2_cache s) of
        (l2a, read_data, status) \<Rightarrow>
          if status AND L1_CACHE_HIT_MASK = 0
          then (case memory_handle_l2_miss loc_r address READ_ENABLE_MASK
                       (s\<lparr>l2_cache := l2a, num_l2_misses := num_l2_misses s + 1\<rparr>) of
                  Inl e \<Rightarrow> Inl e
                | Inr s2 \<Rightarrow>
                    (case l2_cache_access address NULL_line READ_ENABLE_MASK read_data status
                            (l2_cache s2) of
                       (l2b, read_data2, status2) \<Rightarrow>
                         Inr (s2\<lparr>l2_cache := l2b\<rparr>, read_data2, status2)))
          else Inr (s\<lparr>l2_cache := l2a\<rparr>, read_data, status))"

text \<open>
  The second half: insert the line into L1 and write an evicted dirty line to L2. The
  second write to L2, after the L2 miss handler, passes \<^verbatim>\<open>read_data\<close> as the data to
  write, as the source does.
\<close>

definition l1_miss_insert ::
  "locals \<Rightarrow> locals \<Rightarrow> uint32_t \<Rightarrow> uint32_t array \<Rightarrow> uint8_t \<Rightarrow> memory_subsystem \<Rightarrow>
   fatal + memory_subsystem" where
  "l1_miss_insert loc loc_w address read_data status s =
     (case l1_insert_line address read_data (evicted_writeback_address_0 loc)
             (evicted_writeback_data_0 loc) status (l1_cache s) of
        (l1', evicted_writeback_address, evicted_writeback_data, status1) \<Rightarrow>
          if status1 AND L1_CACHE_HIT_MASK \<noteq> 0
          then (case l2_cache_access evicted_writeback_address evicted_writeback_data
                       WRITE_ENABLE_MASK (temp_0 loc) status1 (l2_cache s) of
                  (l2a, temp, status2) \<Rightarrow>
                    if status2 AND L1_CACHE_HIT_MASK = 0
                    then (case memory_handle_l2_miss loc_w evicted_writeback_address
                                 WRITE_ENABLE_MASK (s\<lparr>l1_cache := l1', l2_cache := l2a\<rparr>) of
                            Inl e \<Rightarrow> Inl e
                          | Inr s2 \<Rightarrow>
                              (case l2_cache_access evicted_writeback_address read_data
                                      WRITE_ENABLE_MASK temp status2 (l2_cache s2) of
                                 (l2b, temp2, status3) \<Rightarrow> Inr (s2\<lparr>l2_cache := l2b\<rparr>)))
                    else Inr (s\<lparr>l1_cache := l1', l2_cache := l2a\<rparr>))
          else Inr (s\<lparr>l1_cache := l1'\<rparr>))"

definition memory_handle_l1_miss ::
  "locals \<Rightarrow> locals \<Rightarrow> locals \<Rightarrow> uint32_t \<Rightarrow> memory_subsystem \<Rightarrow> fatal + memory_subsystem" where
  "memory_handle_l1_miss loc loc_r loc_w address s =
     (case l1_miss_fetch loc loc_r address s of
        Inl e \<Rightarrow> Inl e
      | Inr (s1, read_data, status) \<Rightarrow> l1_miss_insert loc loc_w address read_data status s1)"

text \<open>
  \<^verbatim>\<open>memory_access\<close>: \<^verbatim>\<open>read_data\<close> is the content of the output parameter before the
  call, and the result holds it after the call.
\<close>

definition memory_access ::
  "stack \<Rightarrow> uint32_t \<Rightarrow> uint32_t \<Rightarrow> uint8_t \<Rightarrow> uint32_t \<Rightarrow> memory_subsystem \<Rightarrow>
   fatal + memory_subsystem \<times> uint32_t" where
  "memory_access stk address write_data control read_data s =
     (case l1_cache_access address write_data control read_data (access_status_0 stk)
             (l1_cache s) of
        (l1a, read_data1, status) \<Rightarrow>
          if status AND L1_CACHE_HIT_MASK = 0
          then (case memory_handle_l1_miss (l1_miss_locals stk) (l2_read_miss_locals stk)
                       (l2_write_miss_locals stk) address
                       (s\<lparr>l1_cache := l1a, num_l1_misses := num_l1_misses s + 1\<rparr>) of
                  Inl e \<Rightarrow> Inl e
                | Inr s2 \<Rightarrow>
                    (case l1_cache_access address write_data control read_data1 status
                            (l1_cache s2) of
                       (l1b, read_data2, status2) \<Rightarrow> Inr (s2\<lparr>l1_cache := l1b\<rparr>, read_data2)))
          else Inr (s\<lparr>l1_cache := l1a\<rparr>, read_data1))"

definition memory_handle_clock_interrupt :: "memory_subsystem \<Rightarrow> memory_subsystem" where
  "memory_handle_clock_interrupt s = s\<lparr>l1_cache := l1_clear_r_bits (l1_cache s)\<rparr>"

section \<open>Runs of the memory subsystem\<close>

text \<open>
  The globals as the C start-up code leaves them: static storage is zeroed before
  \<^verbatim>\<open>main\<close> runs.
\<close>

definition startup :: memory_subsystem where
  "startup =
     \<lparr>l1_cache = (\<lambda>_. \<lparr>lines = (\<lambda>_. \<lparr>v_r_d_tag = 0, l1_cache_line = (\<lambda>_. 0)\<rparr>)\<rparr>),
      l2_cache = (\<lambda>_. \<lparr>v_d_tag = 0, l2_cache_line = (\<lambda>_. 0)\<rparr>),
      mem = \<lparr>main_memory = (\<lambda>_. 0), main_memory_size_in_bytes = 0\<rparr>,
      num_l1_misses = 0,
      num_l2_misses = 0\<rparr>"

text \<open>
  The three entry points of the controller as requests, and the state after a sequence of
  them. A request that exits the process ends the run with \<open>Inl\<close>.
\<close>

datatype request =
  Initialize uint32_t
| Access stack uint32_t uint32_t uint8_t uint32_t
| ClockInterrupt

fun step :: "request \<Rightarrow> memory_subsystem \<Rightarrow> fatal + memory_subsystem" where
  "step (Initialize memory_size_in_bytes) s = memory_subsystem_initialize memory_size_in_bytes s"
| "step (Access stk address write_data control read_data) s =
     (case memory_access stk address write_data control read_data s of
        Inl e \<Rightarrow> Inl e
      | Inr (s', read_data') \<Rightarrow> Inr s')"
| "step ClockInterrupt s = Inr (memory_handle_clock_interrupt s)"

fun run :: "request list \<Rightarrow> memory_subsystem \<Rightarrow> fatal + memory_subsystem" where
  "run [] s = Inr s"
| "run (r # rs) s = (case step r s of Inl e \<Rightarrow> Inl e | Inr s' \<Rightarrow> run rs s')"

text \<open>Some indeterminate values for the locals, for the examples.\<close>

definition junk :: locals where
  "junk = \<lparr>status_0 = 0xFF, line_0 = (\<lambda>_. 0xDEADBEEF), write_data_0 = (\<lambda>_. 0xDEADBEEF),
           evicted_writeback_address_0 = 0xDEADBEEF,
           evicted_writeback_data_0 = (\<lambda>_. 0xDEADBEEF), temp_0 = (\<lambda>_. 0xDEADBEEF)\<rparr>"

definition junk_stack :: stack where
  "junk_stack = \<lparr>access_status_0 = 0xFF, l1_miss_locals = junk, l2_read_miss_locals = junk,
                 l2_write_miss_locals = junk\<rparr>"

section \<open>Dirty entries are valid entries\<close>

text \<open>The entries of the two arrays: 512 sets of 4 ways in L1, 32768 entries in L2.\<close>

definition l1_dirty_valid :: "L1_CACHE_SET array \<Rightarrow> bool" where
  "l1_dirty_valid l1 =
     (\<forall>i\<in>{0..<L1_NUM_CACHE_SETS}. \<forall>j\<in>{0..<L1_LINES_PER_SET}.
        l1_dirty (lines (l1 i) j) \<longrightarrow> l1_valid (lines (l1 i) j))"

definition l2_dirty_valid :: "L2_CACHE_ENTRY array \<Rightarrow> bool" where
  "l2_dirty_valid l2 =
     (\<forall>i\<in>{0..<L2_NUM_CACHE_ENTRIES}. l2_dirty (l2 i) \<longrightarrow> l2_valid (l2 i))"

fun is_Initialize :: "request \<Rightarrow> bool" where
  "is_Initialize (Initialize n) = True"
| "is_Initialize (Access stk address write_data control read_data) = False"
| "is_Initialize ClockInterrupt = False"

text \<open>
  What a re-initialisation leaves of an L2 array \<open>b\<close>: an entry of \<open>l2\<close> that is dirty
  is valid, or it is the entry of \<open>b\<close>, dirty there, with only its valid bit cleared.
\<close>

definition l2_dirty_since :: "L2_CACHE_ENTRY array \<Rightarrow> L2_CACHE_ENTRY array \<Rightarrow> bool" where
  "l2_dirty_since b l2 =
     (\<forall>i\<in>{0..<L2_NUM_CACHE_ENTRIES}.
        l2_dirty (l2 i) \<longrightarrow>
          l2_valid (l2 i)
          \<or> l2_dirty (b i) \<and> l2 i = (b i)\<lparr>v_d_tag := v_d_tag (b i) AND NOT L2_VBIT_MASK\<rparr>)"

text \<open>
  The state in which the most recent \<^verbatim>\<open>memory_subsystem_initialize\<close> of a run was
  called; \<open>b\<close> when the run has none.
\<close>

fun before_last_initialize ::
  "request list \<Rightarrow> memory_subsystem \<Rightarrow> memory_subsystem \<Rightarrow> memory_subsystem" where
  "before_last_initialize [] s b = b"
| "before_last_initialize (r # rs) s b =
     (case step r s of
        Inl e \<Rightarrow> b
      | Inr s' \<Rightarrow> before_last_initialize rs s' (if is_Initialize r then s else b))"

section \<open>Two scenarios\<close>

text \<open>
  Five writes to addresses 16 KiB apart: one L1 set, five L2 entries. The fifth fills a
  set whose four ways are referenced and dirty, so way 0 (the line of address 0) is
  written back to L2, where its entry still is.
\<close>

definition l1_colliding_writes :: "request list" where
  "l1_colliding_writes =
     [Access junk_stack 0 0xAAAA 2 0, Access junk_stack 0x4000 1 2 0,
      Access junk_stack 0x8000 2 2 0, Access junk_stack 0xC000 3 2 0,
      Access junk_stack 0x10000 4 2 0]"

text \<open>
  Four writes to addresses 1 MiB apart: one L1 set and one L2 entry. Each of them takes
  the L2 entry from the one before, so after them L1 holds four dirty lines of which L2
  holds the last only. \<open>before_fifth_access\<close> is the state after them, on a memory of
  4 MiB + 32 bytes, and \<open>fetched\<close> is what the first half of the L1 miss handler returns
  there for address \<^verbatim>\<open>0x400000\<close>, which maps to the same set and entry.
\<close>

definition l2_colliding_writes :: "request list" where
  "l2_colliding_writes =
     [Access junk_stack 0 0xAAAA 2 0, Access junk_stack 0x100000 1 2 0,
      Access junk_stack 0x200000 2 2 0, Access junk_stack 0x300000 3 2 0]"

definition before_fifth_access :: memory_subsystem where
  "before_fifth_access = projr (run (Initialize 0x400020 # l2_colliding_writes) startup)"

definition fetched :: "memory_subsystem \<times> uint32_t array \<times> uint8_t" where
  "fetched = projr (l1_miss_fetch junk junk 0x400000 before_fifth_access)"

section \<open>The replacement policy as the specification words it\<close>

text \<open>
  The first way, scanning ways 0 to 3 in order, whose reference and dirty bits are \<open>r\<close>
  and \<open>d\<close>.
\<close>

definition nru_first :: "L1_CACHE_SET \<Rightarrow> bool \<Rightarrow> bool \<Rightarrow> nat option" where
  "nru_first s r d =
     find (\<lambda>i. l1_reference (lines s i) = r \<and> l1_dirty (lines s i) = d) [0..<4]"

text \<open>
  The way to replace in a set whose four ways are valid, following the specification: the
  first way with (reference=0, dirty=0) if there is one, otherwise the first with
  (reference=0, dirty=1), otherwise the first with (reference=1, dirty=0), otherwise
  way 0.
\<close>

definition nru_victim_spec :: "L1_CACHE_SET \<Rightarrow> nat" where
  "nru_victim_spec s =
     (case nru_first s False False of
        Some i \<Rightarrow> i
      | None \<Rightarrow>
          (case nru_first s False True of
             Some i \<Rightarrow> i
           | None \<Rightarrow>
               (case nru_first s True False of
                  Some i \<Rightarrow> i
                | None \<Rightarrow> 0)))"

text \<open>
  What one of the three index variables of the scan holds after a run over ways that are
  all valid: its old value if that is not \<^verbatim>\<open>~0x0\<close>, otherwise the first way found.
\<close>

definition first_seen :: "uint32_t \<Rightarrow> nat option \<Rightarrow> uint32_t" where
  "first_seen x r = (if x = NOT 0 then (case r of None \<Rightarrow> NOT 0 | Some i \<Rightarrow> word_of_nat i) else x)"

text \<open>A set with four given state words, for the examples.\<close>

definition ex_set :: "uint32_t \<Rightarrow> uint32_t \<Rightarrow> uint32_t \<Rightarrow> uint32_t \<Rightarrow> L1_CACHE_SET" where
  "ex_set v0 v1 v2 v3 =
     \<lparr>lines = (\<lambda>_. \<lparr>v_r_d_tag = 0, l1_cache_line = (\<lambda>_. 0)\<rparr>)
        (0 := \<lparr>v_r_d_tag = v0, l1_cache_line = (\<lambda>_. 0x10)\<rparr>,
         1 := \<lparr>v_r_d_tag = v1, l1_cache_line = (\<lambda>_. 0x11)\<rparr>,
         2 := \<lparr>v_r_d_tag = v2, l1_cache_line = (\<lambda>_. 0x12)\<rparr>,
         3 := \<lparr>v_r_d_tag = v3, l1_cache_line = (\<lambda>_. 0x13)\<rparr>)\<rparr>"

section \<open>Basic facts\<close>

lemma copy_words_apply:
  "copy_words n src dst i = (if i < n then src i else dst i)"
  unfolding copy_words_def by (induction n arbitrary: i) auto

lemma line_words_copy_words [simp]:
  "line_words (copy_words WORDS_PER_CACHE_LINE src dst) = line_words src"
  by (simp add: line_words_def copy_words_apply)

lemma line_words_copy_words_8 [simp]:
  "line_words (copy_words 8 src dst) = line_words src"
  by (simp add: line_words_def copy_words_apply WORDS_PER_CACHE_LINE_def)

subsection \<open>The bits of the masks\<close>

lemma bit_single: "bit (push_bit k (1::uint32_t)) n \<longleftrightarrow> n = k \<and> k < 32"
  by (simp only: bit_push_bit_iff bit_1_iff) (auto simp: possible_bit_word)

lemma bit_field: "bit (push_bit k (mask w :: uint32_t)) n \<longleftrightarrow> k \<le> n \<and> n < k + w \<and> n < 32"
  by (simp only: bit_push_bit_iff bit_mask_iff) (auto simp: possible_bit_word)

lemma bit_L2_VBIT_MASK: "bit L2_VBIT_MASK n \<longleftrightarrow> n = 31"
  unfolding L2_VBIT_MASK_def by (simp only: bit_single) simp

lemma bit_L2_DIRTYBIT_MASK: "bit L2_DIRTYBIT_MASK n \<longleftrightarrow> n = 30"
  unfolding L2_DIRTYBIT_MASK_def by (simp only: bit_single) simp

lemma bit_L2_ENTRY_TAG_MASK: "bit L2_ENTRY_TAG_MASK n \<longleftrightarrow> n < 12"
proof -
  have eq: "L2_ENTRY_TAG_MASK = push_bit 0 (mask 12)"
    by (simp add: L2_ENTRY_TAG_MASK_def mask_eq_exp_minus_1)
  show ?thesis unfolding eq bit_field by auto
qed

lemma bit_L2_ADDRESS_TAG_MASK: "bit L2_ADDRESS_TAG_MASK n \<longleftrightarrow> 20 \<le> n \<and> n < 32"
proof -
  have eq: "L2_ADDRESS_TAG_MASK = push_bit 20 (mask 12)"
    by (simp add: L2_ADDRESS_TAG_MASK_def mask_eq_exp_minus_1)
  show ?thesis unfolding eq bit_field by auto
qed

lemma bit_L2_INDEX_MASK: "bit L2_INDEX_MASK n \<longleftrightarrow> 5 \<le> n \<and> n < 20"
proof -
  have eq: "L2_INDEX_MASK = push_bit 5 (mask 15)"
    by (simp add: L2_INDEX_MASK_def mask_eq_exp_minus_1)
  show ?thesis unfolding eq bit_field by auto
qed

lemma bit_L1_VBIT_MASK: "bit L1_VBIT_MASK n \<longleftrightarrow> n = 31"
  unfolding L1_VBIT_MASK_def by (simp only: bit_single) simp

lemma bit_L1_RBIT_MASK: "bit L1_RBIT_MASK n \<longleftrightarrow> n = 30"
  unfolding L1_RBIT_MASK_def by (simp only: bit_single) simp

lemma bit_L1_DIRTYBIT_MASK: "bit L1_DIRTYBIT_MASK n \<longleftrightarrow> n = 29"
  unfolding L1_DIRTYBIT_MASK_def by (simp only: bit_single) simp

lemma bit_L1_ENTRY_TAG_MASK: "bit L1_ENTRY_TAG_MASK n \<longleftrightarrow> n < 18"
proof -
  have eq: "L1_ENTRY_TAG_MASK = push_bit 0 (mask 18)"
    by (simp add: L1_ENTRY_TAG_MASK_def mask_eq_exp_minus_1)
  show ?thesis unfolding eq bit_field by auto
qed

lemma bit_L1_ADDRESS_TAG_MASK: "bit L1_ADDRESS_TAG_MASK n \<longleftrightarrow> 14 \<le> n \<and> n < 32"
proof -
  have eq: "L1_ADDRESS_TAG_MASK = push_bit 14 (mask 18)"
    by (simp add: L1_ADDRESS_TAG_MASK_def mask_eq_exp_minus_1)
  show ?thesis unfolding eq bit_field by auto
qed

lemma bit_L1_SET_INDEX_MASK: "bit L1_SET_INDEX_MASK n \<longleftrightarrow> 5 \<le> n \<and> n < 14"
proof -
  have eq: "L1_SET_INDEX_MASK = push_bit 5 (mask 9)"
    by (simp add: L1_SET_INDEX_MASK_def mask_eq_exp_minus_1)
  show ?thesis unfolding eq bit_field by auto
qed

lemmas mask_bits =
  bit_L2_VBIT_MASK bit_L2_DIRTYBIT_MASK bit_L2_ENTRY_TAG_MASK bit_L2_ADDRESS_TAG_MASK
  bit_L2_INDEX_MASK bit_L1_VBIT_MASK bit_L1_RBIT_MASK bit_L1_DIRTYBIT_MASK
  bit_L1_ENTRY_TAG_MASK bit_L1_ADDRESS_TAG_MASK bit_L1_SET_INDEX_MASK

lemmas word_bits =
  bit_and_iff bit_or_iff bit_not_iff bit_drop_bit_eq bit_push_bit_iff

subsection \<open>L2 entries\<close>

lemma l2_valid_bit: "l2_valid e = bit (v_d_tag e) 31"
  using and_exp_eq_0_iff_not_bit [of "v_d_tag e" 31]
  by (simp add: l2_valid_def L2_VBIT_MASK_def)

lemma l2_dirty_bit: "l2_dirty e = bit (v_d_tag e) 30"
  using and_exp_eq_0_iff_not_bit [of "v_d_tag e" 30]
  by (simp add: l2_dirty_def L2_DIRTYBIT_MASK_def)

lemma l2_tag_bits_eq: "l2_tag_bits address = drop_bit 20 address"
  unfolding l2_tag_bits_def L2_ADDRESS_TAG_SHIFT_def
  by (rule bit_word_eqI) (auto simp: word_bits mask_bits dest: bit_imp_le_length)

lemma bit_l2_tag_bits: "bit (l2_tag_bits address) n \<Longrightarrow> n < 12"
  unfolding l2_tag_bits_eq by (auto simp: word_bits dest: bit_imp_le_length)

lemma l2_fresh_valid:
  "l2_valid \<lparr>v_d_tag = L2_VBIT_MASK OR l2_tag_bits address, l2_cache_line = l\<rparr>"
  by (simp add: l2_valid_bit word_bits mask_bits)

lemma l2_fresh_clean:
  "\<not> l2_dirty \<lparr>v_d_tag = L2_VBIT_MASK OR l2_tag_bits address, l2_cache_line = l\<rparr>"
  by (auto simp: l2_dirty_bit word_bits mask_bits dest: bit_l2_tag_bits)

lemma l2_fresh_tag:
  "l2_entry_tag \<lparr>v_d_tag = L2_VBIT_MASK OR l2_tag_bits address, l2_cache_line = l\<rparr>
     = l2_tag_bits address"
  unfolding l2_entry_tag_def
  by (rule bit_word_eqI) (auto simp: word_bits mask_bits dest: bit_l2_tag_bits)

subsection \<open>Address fields\<close>

lemma l2_index_bits_eq: "l2_index_bits address = take_bit 15 (drop_bit 5 address)"
  unfolding l2_index_bits_def L2_INDEX_SHIFT_def
  by (rule bit_word_eqI) (auto simp: word_bits mask_bits bit_take_bit_iff)

lemma l1_index_set_bits_eq: "l1_index_set_bits address = take_bit 9 (drop_bit 5 address)"
  unfolding l1_index_set_bits_def L1_SET_INDEX_SHIFT_def
  by (rule bit_word_eqI) (auto simp: word_bits mask_bits bit_take_bit_iff)

lemma l1_tag_bits_eq: "l1_tag_bits address = drop_bit 14 address"
  unfolding l1_tag_bits_def L1_ADDRESS_TAG_SHIFT_def
  by (rule bit_word_eqI) (auto simp: word_bits mask_bits dest: bit_imp_le_length)

subsection \<open>The status byte\<close>

lemma status_set: "(st OR 1) AND NOT 1 = st AND NOT (1::uint8_t)"
  by (rule bit_word_eqI) (auto simp: word_bits bit_1_iff)

lemma status_clear_bit0: "\<not> bit (st AND NOT (1::uint8_t)) 0"
  by (simp add: word_bits bit_1_iff)

lemma status_set_bit0: "bit (st OR (1::uint8_t)) 0"
  by (simp add: word_bits bit_1_iff)

lemma status_frame:
  "(st OR L1_CACHE_HIT_MASK) AND NOT 1 = st AND NOT 1"
  "(st AND NOT L1_CACHE_HIT_MASK) AND NOT 1 = st AND NOT 1"
  "(st OR 1) AND NOT 1 = st AND NOT (1::uint8_t)"
  "(st AND NOT 1) AND NOT 1 = st AND NOT (1::uint8_t)"
  unfolding L1_CACHE_HIT_MASK_def
  by (rule bit_word_eqI; auto simp: word_bits bit_1_iff)+

lemma line_words_unfold:
  "line_words a = [a 0, a 1, a 2, a 3, a 4, a 5, a 6, a 7]"
  by (simp add: line_words_def WORDS_PER_CACHE_LINE_def eval_nat_numeral)

section \<open>L2: inserting a line\<close>

lemma l2_insert_line_entry:
  "fst (l2_insert_line address write_data ea ed status l2) (unat (l2_index_bits address)) =
     \<lparr>v_d_tag = L2_VBIT_MASK OR l2_tag_bits address,
      l2_cache_line = copy_words WORDS_PER_CACHE_LINE write_data
         (l2_cache_line (l2 (unat (l2_index_bits address))))\<rparr>"
  by (simp add: l2_insert_line_def Let_def)

lemma l2_insert_line_clean:
  "\<not> l2_valid (l2 (unat (l2_index_bits address))) \<or> \<not> l2_dirty (l2 (unat (l2_index_bits address)))
   \<Longrightarrow> snd (l2_insert_line address write_data ea ed status l2) = (ea, ed, status AND NOT 1)"
  by (auto simp: l2_insert_line_def Let_def)

lemma l2_insert_line_dirty:
  "l2_valid (l2 (unat (l2_index_bits address))) \<Longrightarrow> l2_dirty (l2 (unat (l2_index_bits address)))
   \<Longrightarrow> snd (l2_insert_line address write_data ea ed status l2) =
      (push_bit 20 (l2_entry_tag (l2 (unat (l2_index_bits address))))
         OR push_bit 5 (l2_index_bits address),
       copy_words WORDS_PER_CACHE_LINE (l2_cache_line (l2 (unat (l2_index_bits address)))) ed,
       status OR 1)"
  by (simp add: l2_insert_line_def Let_def l2_entry_tag_def L2_ADDRESS_TAG_SHIFT_def
      L2_INDEX_SHIFT_def)

text \<open>
  Claim C7. \<^verbatim>\<open>l2_insert_line(address, write_data)\<close> looks at the entry at the index of the
  address (bits 5 to 19). If that entry is invalid or not dirty, bit 0 of the status byte
  is cleared (no write-back). Otherwise bit 0 is set, \<^verbatim>\<open>evicted_writeback_address\<close> is
  \<^verbatim>\<open>(existing_tag << 20) | (index << 5)\<close> and \<^verbatim>\<open>evicted_writeback_data\<close> holds the old line.
  In both cases the entry afterwards holds \<^verbatim>\<open>write_data\<close>, is valid, is not dirty and
  carries bits 20 to 31 of the address as its tag.
\<close>

theorem l2_insert_line_contract:
  "case l2_insert_line address write_data ea ed status l2 of
     (l2', ea', ed', status') \<Rightarrow>
       let index = take_bit 15 (drop_bit 5 address);
           e = l2 (unat index);
           e' = l2' (unat index)
       in (if \<not> l2_valid e \<or> \<not> l2_dirty e
           then \<not> bit status' 0
           else bit status' 0
              \<and> ea' = push_bit 20 (l2_entry_tag e) OR push_bit 5 index
              \<and> line_words ed' = line_words (l2_cache_line e))
        \<and> line_words (l2_cache_line e') = line_words write_data
        \<and> l2_valid e' \<and> \<not> l2_dirty e' \<and> l2_entry_tag e' = drop_bit 20 address"
proof -
  obtain l2' ea' ed' status' where
    r: "l2_insert_line address write_data ea ed status l2 = (l2', ea', ed', status')"
    by (cases "l2_insert_line address write_data ea ed status l2") auto
  let ?i = "unat (l2_index_bits address)"
  have e': "l2' ?i = \<lparr>v_d_tag = L2_VBIT_MASK OR l2_tag_bits address,
      l2_cache_line = copy_words WORDS_PER_CACHE_LINE write_data (l2_cache_line (l2 ?i))\<rparr>"
    using l2_insert_line_entry [of address write_data ea ed status l2] r by simp
  have new: "line_words (l2_cache_line (l2' ?i)) = line_words write_data
      \<and> l2_valid (l2' ?i) \<and> \<not> l2_dirty (l2' ?i) \<and> l2_entry_tag (l2' ?i) = drop_bit 20 address"
    unfolding e' by (simp add: l2_fresh_valid l2_fresh_clean l2_fresh_tag) (simp add: l2_tag_bits_eq)
  have old: "if \<not> l2_valid (l2 ?i) \<or> \<not> l2_dirty (l2 ?i)
           then \<not> bit status' 0
           else bit status' 0
              \<and> ea' = push_bit 20 (l2_entry_tag (l2 ?i)) OR push_bit 5 (l2_index_bits address)
              \<and> line_words ed' = line_words (l2_cache_line (l2 ?i))"
  proof (cases "\<not> l2_valid (l2 ?i) \<or> \<not> l2_dirty (l2 ?i)")
    case True
    from l2_insert_line_clean [of l2 address write_data ea ed status] True r
    have "status' = status AND NOT 1" by simp
    with True show ?thesis by (simp only: status_clear_bit0 if_True not_False_eq_True)
  next
    case False
    then have v: "l2_valid (l2 ?i)" and d: "l2_dirty (l2 ?i)" by auto
    from l2_insert_line_dirty [of l2 address write_data ea ed status] v d r
    have "ea' = push_bit 20 (l2_entry_tag (l2 ?i)) OR push_bit 5 (l2_index_bits address)"
      and "ed' = copy_words WORDS_PER_CACHE_LINE (l2_cache_line (l2 ?i)) ed"
      and "status' = status OR 1" by simp_all
    with False show ?thesis by (simp only: status_set_bit0 if_False line_words_copy_words)
  qed
  from old new show ?thesis
    unfolding r by (simp only: prod.case Let_def l2_index_bits_eq [symmetric]) simp
qed

theorem l2_insert_line_contract_witness:
  "case l2_insert_line 0x200040 (\<lambda>_. 7) 0 (\<lambda>_. 0) 0
          (\<lambda>_. \<lparr>v_d_tag = 0xC0000001, l2_cache_line = (\<lambda>_. 5)\<rparr>) of
     (l2', ea', ed', status') \<Rightarrow>
       bit status' 0 \<and> ea' = 0x100040 \<and> line_words ed' = [5, 5, 5, 5, 5, 5, 5, 5]
     \<and> line_words (l2_cache_line (l2' 2)) = [7, 7, 7, 7, 7, 7, 7, 7]
     \<and> l2_valid (l2' 2) \<and> \<not> l2_dirty (l2' 2) \<and> l2_entry_tag (l2' 2) = 2"
  using l2_insert_line_contract [where address = "0x200040" and write_data = "\<lambda>_. 7"
      and ea = 0 and ed = "\<lambda>_. 0" and status = 0
      and ?l2.0 = "\<lambda>_. \<lparr>v_d_tag = 0xC0000001, l2_cache_line = (\<lambda>_. 5)\<rparr>"]
  by (simp add: Let_def l2_valid_def l2_dirty_def l2_entry_tag_def L2_VBIT_MASK_def
      L2_DIRTYBIT_MASK_def L2_ENTRY_TAG_MASK_def line_words_unfold
      split: prod.splits)

section \<open>The status byte is changed in bit 0 only\<close>

lemma l1_cache_access_status:
  "snd (snd (l1_cache_access address write_data control read_data status l1)) AND NOT 1
     = status AND NOT 1"
  unfolding l1_cache_access_def Let_def
  by (simp only: status_frame snd_conv split: option.split) simp

lemma l1_insert_line_status:
  "snd (snd (snd (l1_insert_line address write_data ea ed status l1))) AND NOT 1
     = status AND NOT 1"
  unfolding l1_insert_line_def Let_def
  by (simp only: status_frame snd_conv split: sum.split if_split) simp

lemma l2_cache_access_status:
  "snd (snd (l2_cache_access address write_data control read_data status l2)) AND NOT 1
     = status AND NOT 1"
  unfolding l2_cache_access_def Let_def
  by (simp only: status_frame snd_conv split: if_split) simp

lemma l2_insert_line_status:
  "snd (snd (snd (l2_insert_line address write_data ea ed status l2))) AND NOT 1
     = status AND NOT 1"
  unfolding l2_insert_line_def Let_def
  by (simp only: status_frame snd_conv split: if_split) simp

text \<open>
  Claim C10. Each of \<^verbatim>\<open>l1_cache_access\<close>, \<^verbatim>\<open>l1_insert_line\<close>, \<^verbatim>\<open>l2_cache_access\<close> and
  \<^verbatim>\<open>l2_insert_line\<close> changes bit 0 of the status byte only: bits 1 to 7 of the byte that
  is passed in are the same when the call returns.
\<close>

theorem status_only_bit_0:
  "snd (snd (l1_cache_access address write_data control read_data status l1)) AND NOT 0x1
     = status AND NOT 0x1
   \<and> snd (snd (snd (l1_insert_line address line ea ed status l1))) AND NOT 0x1
     = status AND NOT 0x1
   \<and> snd (snd (l2_cache_access address line control read_line status l2)) AND NOT 0x1
     = status AND NOT 0x1
   \<and> snd (snd (snd (l2_insert_line address line ea ed status l2))) AND NOT 0x1
     = status AND NOT 0x1"
  by (simp only: l1_cache_access_status l1_insert_line_status l2_cache_access_status
      l2_insert_line_status simp_thms)

theorem status_only_bit_0_witness:
  "snd (snd (l1_cache_access 0x40 9 3 0 0xA5 (\<lambda>_. \<lparr>lines = (\<lambda>_. \<lparr>v_r_d_tag = 0, l1_cache_line = (\<lambda>_. 0)\<rparr>)\<rparr>)))
     AND NOT 0x1 = 0xA4
   \<and> snd (snd (snd (l1_insert_line 0x40 (\<lambda>_. 7) 0 (\<lambda>_. 0) 0xA4
          (\<lambda>_. \<lparr>lines = (\<lambda>_. \<lparr>v_r_d_tag = 0xE0000000, l1_cache_line = (\<lambda>_. 0)\<rparr>)\<rparr>))))
     AND NOT 0x1 = 0xA4
   \<and> snd (snd (l2_cache_access 0x40 (\<lambda>_. 7) 3 (\<lambda>_. 0) 0xA4
          (\<lambda>_. \<lparr>v_d_tag = 0x80000000, l2_cache_line = (\<lambda>_. 5)\<rparr>)))
     AND NOT 0x1 = 0xA4
   \<and> snd (snd (snd (l2_insert_line 0x40 (\<lambda>_. 7) 0 (\<lambda>_. 0) 0xA4
          (\<lambda>_. \<lparr>v_d_tag = 0xC0000001, l2_cache_line = (\<lambda>_. 5)\<rparr>))))
     AND NOT 0x1 = 0xA4"
  using status_only_bit_0 [where address = "0x40" and write_data = 9 and control = 3
      and read_data = 0 and status = "0xA5" and line = "\<lambda>_. 7" and ea = 0
      and ed = "\<lambda>_. 0" and read_line = "\<lambda>_. 0"
      and ?l1.0 = "\<lambda>_. \<lparr>lines = (\<lambda>_. \<lparr>v_r_d_tag = 0, l1_cache_line = (\<lambda>_. 0)\<rparr>)\<rparr>"
      and ?l2.0 = "\<lambda>_. \<lparr>v_d_tag = 0x80000000, l2_cache_line = (\<lambda>_. 5)\<rparr>"]
    status_only_bit_0 [where address = "0x40" and write_data = 9 and control = 3
      and read_data = 0 and status = "0xA4" and line = "\<lambda>_. 7" and ea = 0
      and ed = "\<lambda>_. 0" and read_line = "\<lambda>_. 0"
      and ?l1.0 = "\<lambda>_. \<lparr>lines = (\<lambda>_. \<lparr>v_r_d_tag = 0xE0000000, l1_cache_line = (\<lambda>_. 0)\<rparr>)\<rparr>"
      and ?l2.0 = "\<lambda>_. \<lparr>v_d_tag = 0x80000000, l2_cache_line = (\<lambda>_. 5)\<rparr>"]
    status_only_bit_0 [where address = "0x40" and write_data = 9 and control = 3
      and read_data = 0 and status = "0xA4" and line = "\<lambda>_. 7" and ea = 0
      and ed = "\<lambda>_. 0" and read_line = "\<lambda>_. 0"
      and ?l1.0 = "\<lambda>_. \<lparr>lines = (\<lambda>_. \<lparr>v_r_d_tag = 0xE0000000, l1_cache_line = (\<lambda>_. 0)\<rparr>)\<rparr>"
      and ?l2.0 = "\<lambda>_. \<lparr>v_d_tag = 0xC0000001, l2_cache_line = (\<lambda>_. 5)\<rparr>"]
  by simp

section \<open>A miss changes nothing\<close>

lemma l1_find_hit_None:
  "l1_find_hit s tag_bits ws = None \<longleftrightarrow>
     (\<forall>i\<in>set ws. \<not> (l1_valid (lines s i) \<and> l1_entry_tag (lines s i) = tag_bits))"
  by (induction ws) auto

lemma l1_find_hit_Some:
  "l1_find_hit s tag_bits ws = Some i \<Longrightarrow>
     i \<in> set ws \<and> l1_valid (lines s i) \<and> l1_entry_tag (lines s i) = tag_bits"
  by (induction ws) (auto split: if_splits)

lemma l1_cache_access_miss:
  "l1_find_hit (l1 (unat (l1_index_set_bits address))) (l1_tag_bits address)
      [0..<L1_LINES_PER_SET] = None
   \<Longrightarrow> l1_cache_access address write_data control read_data status l1
       = (l1, read_data, status AND NOT 0x1)"
  by (simp add: l1_cache_access_def Let_def L1_CACHE_HIT_MASK_def)

lemma l2_cache_access_miss:
  "\<not> l2_valid (l2 (unat (l2_index_bits address)))
     \<or> l2_entry_tag (l2 (unat (l2_index_bits address))) \<noteq> l2_tag_bits address
   \<Longrightarrow> l2_cache_access address write_data control read_data status l2
       = (l2, read_data, status AND NOT 0x1)"
  by (auto simp: l2_cache_access_def Let_def)

text \<open>
  Claim C8. When \<^verbatim>\<open>l1_cache_access\<close> finds no valid way with the tag of the address in the
  set of the address, and when \<^verbatim>\<open>l2_cache_access\<close> finds the entry at the index of the
  address invalid or with another tag, the call reports a miss (bit 0 of the status byte
  is 0) and does nothing else: the cache is unchanged and \<^verbatim>\<open>read_data\<close> is not written,
  whatever the control byte is.
\<close>

theorem cache_access_miss_no_effect:
  "((\<forall>i<4. \<not> (l1_valid (lines (l1 (unat (take_bit 9 (drop_bit 5 address)))) i)
              \<and> l1_entry_tag (lines (l1 (unat (take_bit 9 (drop_bit 5 address)))) i)
                  = drop_bit 14 address))
    \<longrightarrow> l1_cache_access address write_data control read_data status l1
          = (l1, read_data, status AND NOT 0x1))
   \<and> (\<not> l2_valid (l2 (unat (take_bit 15 (drop_bit 5 address))))
        \<or> l2_entry_tag (l2 (unat (take_bit 15 (drop_bit 5 address)))) \<noteq> drop_bit 20 address
    \<longrightarrow> l2_cache_access address line control read_line status l2
          = (l2, read_line, status AND NOT 0x1))
   \<and> \<not> bit (status AND NOT 0x1) 0"
proof (intro conjI impI)
  assume "\<forall>i<4. \<not> (l1_valid (lines (l1 (unat (take_bit 9 (drop_bit 5 address)))) i)
              \<and> l1_entry_tag (lines (l1 (unat (take_bit 9 (drop_bit 5 address)))) i)
                  = drop_bit 14 address)"
  then have "l1_find_hit (l1 (unat (l1_index_set_bits address))) (l1_tag_bits address)
      [0..<L1_LINES_PER_SET] = None"
    by (simp add: l1_find_hit_None l1_index_set_bits_eq l1_tag_bits_eq L1_LINES_PER_SET_def)
  then show "l1_cache_access address write_data control read_data status l1
          = (l1, read_data, status AND NOT 0x1)"
    by (rule l1_cache_access_miss)
next
  assume "\<not> l2_valid (l2 (unat (take_bit 15 (drop_bit 5 address))))
        \<or> l2_entry_tag (l2 (unat (take_bit 15 (drop_bit 5 address)))) \<noteq> drop_bit 20 address"
  then have "\<not> l2_valid (l2 (unat (l2_index_bits address)))
     \<or> l2_entry_tag (l2 (unat (l2_index_bits address))) \<noteq> l2_tag_bits address"
    by (simp only: l2_index_bits_eq l2_tag_bits_eq)
  then show "l2_cache_access address line control read_line status l2
          = (l2, read_line, status AND NOT 0x1)"
    by (rule l2_cache_access_miss)
next
  show "\<not> bit (status AND NOT 0x1) 0" by (rule status_clear_bit0)
qed

theorem cache_access_miss_no_effect_witness:
  "l1_cache_access 0x4044 9 3 0x55 0xA5
       (\<lambda>_. \<lparr>lines = (\<lambda>_. \<lparr>v_r_d_tag = 0x80000002, l1_cache_line = (\<lambda>_. 5)\<rparr>)\<rparr>)
     = (\<lambda>_. \<lparr>lines = (\<lambda>_. \<lparr>v_r_d_tag = 0x80000002, l1_cache_line = (\<lambda>_. 5)\<rparr>)\<rparr>, 0x55, 0xA4)
   \<and> l2_cache_access 0x4044 (\<lambda>_. 7) 3 (\<lambda>_. 6) 0xA5
       (\<lambda>_. \<lparr>v_d_tag = 0x80000002, l2_cache_line = (\<lambda>_. 5)\<rparr>)
     = (\<lambda>_. \<lparr>v_d_tag = 0x80000002, l2_cache_line = (\<lambda>_. 5)\<rparr>, \<lambda>_. 6, 0xA4)
   \<and> \<not> bit (0xA4 :: uint8_t) 0"
  using cache_access_miss_no_effect [where address = "0x4044" and write_data = 9
      and control = 3 and read_data = "0x55" and status = "0xA5" and line = "\<lambda>_. 7"
      and read_line = "\<lambda>_. 6"
      and ?l1.0 = "\<lambda>_. \<lparr>lines = (\<lambda>_. \<lparr>v_r_d_tag = 0x80000002, l1_cache_line = (\<lambda>_. 5)\<rparr>)\<rparr>"
      and ?l2.0 = "\<lambda>_. \<lparr>v_d_tag = 0x80000002, l2_cache_line = (\<lambda>_. 5)\<rparr>"]
  by (simp add: l1_valid_def l1_entry_tag_def L1_VBIT_MASK_def L1_ENTRY_TAG_MASK_def
      l2_valid_def l2_entry_tag_def L2_VBIT_MASK_def L2_ENTRY_TAG_MASK_def)

section \<open>Main memory: the bounds check\<close>

text \<open>
  Claim C9. \<^verbatim>\<open>main_memory_access\<close> exits exactly when
  \<^verbatim>\<open>address >= main_memory_size_in_bytes\<close>: an address equal to the size is rejected, and
  every smaller address is served.
\<close>

theorem main_memory_access_bounds:
  "isl (main_memory_access address write_data control read_data mm)
     = (main_memory_size_in_bytes mm \<le> address)
   \<and> main_memory_access (main_memory_size_in_bytes mm) write_data control read_data mm
     = Inl AddressOutOfRange"
  by (simp add: main_memory_access_def Let_def)

theorem main_memory_access_bounds_witness:
  "isl (main_memory_access 64 (\<lambda>_. 7) 3 (\<lambda>_. 0)
          \<lparr>main_memory = (\<lambda>_. 0), main_memory_size_in_bytes = 64\<rparr>)
   \<and> \<not> isl (main_memory_access 63 (\<lambda>_. 7) 3 (\<lambda>_. 0)
          \<lparr>main_memory = (\<lambda>_. 0), main_memory_size_in_bytes = 64\<rparr>)
   \<and> main_memory_access 64 (\<lambda>_. 7) 3 (\<lambda>_. 0)
          \<lparr>main_memory = (\<lambda>_. 0), main_memory_size_in_bytes = 64\<rparr> = Inl AddressOutOfRange"
  using main_memory_access_bounds [where address = 64 and write_data = "\<lambda>_. 7" and control = 3
      and read_data = "\<lambda>_. 0"
      and mm = "\<lparr>main_memory = (\<lambda>_. 0), main_memory_size_in_bytes = 64\<rparr>"]
    main_memory_access_bounds [where address = 63 and write_data = "\<lambda>_. 7" and control = 3
      and read_data = "\<lambda>_. 0"
      and mm = "\<lparr>main_memory = (\<lambda>_. 0), main_memory_size_in_bytes = 64\<rparr>"]
  by simp

section \<open>L1: choosing the way to replace\<close>

lemma way_cases: "i < 4 \<Longrightarrow> i = 0 \<or> i = 1 \<or> i = 2 \<or> i = (3::nat)"
  by arith

lemma unat_way: "i < 4 \<Longrightarrow> unat (word_of_nat i :: uint32_t) = i"
  by (drule way_cases) auto

lemma way_not_none: "i < 4 \<Longrightarrow> (word_of_nat i :: uint32_t) \<noteq> NOT 0"
  by (drule way_cases) auto

lemma way_not_none': "i < 4 \<Longrightarrow> (word_of_nat i :: uint32_t) \<noteq> - 1"
  by (drule way_cases) auto

lemma l1_scan_all_valid:
  "\<forall>i\<in>set ws. l1_valid (lines s i) \<and> i < 4 \<Longrightarrow>
   l1_scan s ws (a, b, c) =
     Inr (first_seen a (find (\<lambda>i. \<not> l1_reference (lines s i) \<and> \<not> l1_dirty (lines s i)) ws),
          first_seen b (find (\<lambda>i. \<not> l1_reference (lines s i) \<and> l1_dirty (lines s i)) ws),
          first_seen c (find (\<lambda>i. l1_reference (lines s i) \<and> \<not> l1_dirty (lines s i)) ws))"
proof (induction ws arbitrary: a b c)
  case Nil
  then show ?case by (simp add: first_seen_def)
next
  case (Cons w ws)
  have w: "w < 4" and v: "l1_valid (lines s w)" using Cons.prems by auto
  have ne: "(word_of_nat w :: uint32_t) \<noteq> NOT 0"
    using w by (rule way_not_none)
  have rest: "\<forall>i\<in>set ws. l1_valid (lines s i) \<and> i < 4" using Cons.prems by auto
  show ?case
    using v ne by (simp add: Cons.IH [OF rest] Let_def first_seen_def)
qed

lemma find_upt_less: "find P [0..<n] = Some i \<Longrightarrow> i < n"
  by (auto simp: find_Some_iff)

lemma l1_selected_way_all_valid:
  assumes "\<forall>i<4. l1_valid (lines s i)"
  shows "l1_scan s [0..<L1_LINES_PER_SET] (NOT 0, NOT 0, NOT 0) \<noteq> Inl i"
    and "l1_selected_way s = nru_victim_spec s"
proof -
  have all: "\<forall>i\<in>set [0..<L1_LINES_PER_SET]. l1_valid (lines s i) \<and> i < 4"
    using assms by (simp add: L1_LINES_PER_SET_def)
  note scan = l1_scan_all_valid [OF all, of "NOT 0" "NOT 0" "NOT 0"]
  show "l1_scan s [0..<L1_LINES_PER_SET] (NOT 0, NOT 0, NOT 0) \<noteq> Inl i"
    by (simp only: scan) simp
  have sel: "l1_selected_way s =
      unat (l1_curr_entry (first_seen (NOT 0) (nru_first s False False),
                           first_seen (NOT 0) (nru_first s False True),
                           first_seen (NOT 0) (nru_first s True False)))"
    unfolding l1_selected_way_def scan by (simp add: nru_first_def L1_LINES_PER_SET_def)
  have lt: "\<And>r d i. nru_first s r d = Some i \<Longrightarrow> i < 4"
    unfolding nru_first_def by (rule find_upt_less)
  show "l1_selected_way s = nru_victim_spec s"
    unfolding sel nru_victim_spec_def l1_curr_entry_def first_seen_def
    by (auto split: option.splits simp: unat_way way_not_none way_not_none' dest: lt)
qed


lemma l1_valid_bit: "l1_valid e = bit (v_r_d_tag e) 31"
  using and_exp_eq_0_iff_not_bit [of "v_r_d_tag e" 31]
  by (simp add: l1_valid_def L1_VBIT_MASK_def)

lemma l1_reference_bit: "l1_reference e = bit (v_r_d_tag e) 30"
  using and_exp_eq_0_iff_not_bit [of "v_r_d_tag e" 30]
  by (simp add: l1_reference_def L1_RBIT_MASK_def)

lemma l1_dirty_bit: "l1_dirty e = bit (v_r_d_tag e) 29"
  using and_exp_eq_0_iff_not_bit [of "v_r_d_tag e" 29]
  by (simp add: l1_dirty_def L1_DIRTYBIT_MASK_def)

lemma bit_l1_tag_bits: "bit (l1_tag_bits address) n \<Longrightarrow> n < 18"
  unfolding l1_tag_bits_eq by (auto simp: word_bits dest: bit_imp_le_length)

text \<open>The state word that the second overwrite of \<^verbatim>\<open>l1_insert_line\<close> leaves in the entry.\<close>

lemma l1_overwrite_bits:
  fixes v :: uint32_t and address :: uint32_t
  defines "v' \<equiv> (((v OR L1_VBIT_MASK) AND NOT L1_DIRTYBIT_MASK) AND NOT L1_ENTRY_TAG_MASK)
                   OR l1_tag_bits address"
  shows "bit v' 31" and "\<not> bit v' 29" and "bit v' 30 = bit v 30"
    and "v' AND L1_ENTRY_TAG_MASK = l1_tag_bits address"
proof -
  show "bit v' 31" by (simp add: v'_def word_bits mask_bits)
  show "\<not> bit v' 29" by (auto simp: v'_def word_bits mask_bits dest: bit_l1_tag_bits)
  show "bit v' 30 = bit v 30" by (auto simp: v'_def word_bits mask_bits dest: bit_l1_tag_bits)
  show "v' AND L1_ENTRY_TAG_MASK = l1_tag_bits address"
    unfolding v'_def
    by (rule bit_word_eqI) (auto simp: word_bits mask_bits dest: bit_l1_tag_bits)
qed

lemma l1_entry_update_apply:
  "lines (l1_entry_update i j f l1 i') j' =
     (if i' = i \<and> j' = j then f (lines (l1 i) j) else lines (l1 i') j')"
  by (simp add: l1_entry_update_def)

lemma l1_insert_line_all_valid:
  assumes "\<forall>i<4. l1_valid (lines (l1 (unat (l1_index_set_bits address))) i)"
  shows "l1_insert_line address write_data ea ed status l1 =
     (let s = l1 (unat (l1_index_set_bits address));
          e = lines s (l1_selected_way s);
          l1' = l1_entry_update (unat (l1_index_set_bits address)) (l1_selected_way s)
                  (\<lambda>_. \<lparr>v_r_d_tag =
                          (((v_r_d_tag e OR L1_VBIT_MASK) AND NOT L1_DIRTYBIT_MASK)
                             AND NOT L1_ENTRY_TAG_MASK) OR l1_tag_bits address,
                        l1_cache_line = copy_words 8 write_data (l1_cache_line e)\<rparr>) l1
      in if l1_dirty e
         then (l1', push_bit 14 (l1_entry_tag e) OR push_bit 5 (l1_index_set_bits address),
               copy_words 8 (l1_cache_line e) ed, status OR 1)
         else (l1', ea, ed, status AND NOT 1))"
proof -
  let ?s = "l1 (unat (l1_index_set_bits address))"
  obtain idx where scan: "l1_scan ?s [0..<L1_LINES_PER_SET] (NOT 0, NOT 0, NOT 0) = Inr idx"
    using l1_selected_way_all_valid(1) [OF assms]
    by (cases "l1_scan ?s [0..<L1_LINES_PER_SET] (NOT 0, NOT 0, NOT 0)") auto
  have sel: "l1_selected_way ?s = unat (l1_curr_entry idx)"
    unfolding l1_selected_way_def scan by simp
  show ?thesis
    unfolding l1_insert_line_def Let_def scan sel
    by (simp add: L1_CACHE_HIT_MASK_def L1_ADDRESS_TAG_SHIFT_def L1_SET_INDEX_SHIFT_def
        l1_entry_tag_def)
qed

lemma all_less_4: "(\<forall>i<4. P i) \<longleftrightarrow> P 0 \<and> P 1 \<and> P 2 \<and> P (3::nat)"
proof
  assume "\<forall>i<4. P i"
  then show "P 0 \<and> P 1 \<and> P 2 \<and> P 3" by simp
next
  assume "P 0 \<and> P 1 \<and> P 2 \<and> P 3"
  then show "\<forall>i<4. P i" by (auto dest!: way_cases)
qed

lemma upt_4: "[0..<4] = [0, 1, 2, 3]"
  by (simp add: eval_nat_numeral)

lemma nru_victim_spec_first:
  "\<not> l1_reference (lines s 0) \<Longrightarrow> \<not> l1_dirty (lines s 0) \<Longrightarrow> nru_victim_spec s = 0"
  by (simp add: nru_victim_spec_def nru_first_def upt_4)

lemmas l1_flag_defs =
  l1_valid_def l1_reference_def l1_dirty_def l1_entry_tag_def
  L1_VBIT_MASK_def L1_RBIT_MASK_def L1_DIRTYBIT_MASK_def L1_ENTRY_TAG_MASK_def

lemma nru_first_None:
  "nru_first s r d = None \<longleftrightarrow>
     (\<forall>i<4. \<not> (l1_reference (lines s i) = r \<and> l1_dirty (lines s i) = d))"
  by (auto simp: nru_first_def find_None_iff)

lemma nru_first_Some:
  "nru_first s r d = Some i \<Longrightarrow>
     i < 4 \<and> l1_reference (lines s i) = r \<and> l1_dirty (lines s i) = d"
  by (auto simp: nru_first_def find_Some_iff)

lemma nru_victim_spec_reference:
  "l1_reference (lines s (nru_victim_spec s)) \<longleftrightarrow> (\<forall>i<4. l1_reference (lines s i))"
proof (cases "nru_first s False False")
  case (Some i)
  then show ?thesis
    using nru_first_Some [OF Some] by (auto simp: nru_victim_spec_def)
next
  case None
  note n00 = this
  show ?thesis
  proof (cases "nru_first s False True")
    case (Some i)
    then show ?thesis
      using nru_first_Some [OF Some] n00 by (auto simp: nru_victim_spec_def)
  next
    case None
    have all: "\<forall>i<4. l1_reference (lines s i)"
      using n00 None unfolding nru_first_None by blast
    show ?thesis
    proof (cases "nru_first s True False")
      case (Some i)
      then show ?thesis
        using nru_first_Some [OF Some] n00 None all by (auto simp: nru_victim_spec_def)
    next
      case n10: None
      show ?thesis
        using n00 None n10 all by (simp add: nru_victim_spec_def)
    qed
  qed
qed

text \<open>
  Claim C4. When all four ways of the target set are valid, \<^verbatim>\<open>l1_insert_line\<close> replaces the
  first way (in the order 0, 1, 2, 3) with reference=0 and dirty=0 if there is one,
  otherwise the first with reference=0 and dirty=1, otherwise the first with reference=1
  and dirty=0, otherwise way 0; no other entry of the cache changes. In particular way 0
  is replaced when ways 0 and 2 both have reference=0 and dirty=0.
\<close>

theorem l1_insert_line_nru:
  assumes "\<forall>i<4. l1_valid (lines (l1 (unat (take_bit 9 (drop_bit 5 address)))) i)"
  shows "let set_index = unat (take_bit 9 (drop_bit 5 address));
             s = l1 set_index;
             way = nru_victim_spec s
         in l1_selected_way s = way
          \<and> (\<exists>e'. fst (l1_insert_line address write_data ea ed status l1)
                     = l1_entry_update set_index way (\<lambda>_. e') l1
                 \<and> line_words (l1_cache_line e') = line_words write_data
                 \<and> l1_entry_tag e' = drop_bit 14 address)
          \<and> (\<not> l1_reference (lines s 0) \<and> \<not> l1_dirty (lines s 0)
              \<and> \<not> l1_reference (lines s 2) \<and> \<not> l1_dirty (lines s 2) \<longrightarrow> way = 0)"
proof -
  let ?i = "unat (l1_index_set_bits address)"
  let ?s = "l1 ?i"
  let ?e = "lines ?s (l1_selected_way ?s)"
  let ?e' = "\<lparr>v_r_d_tag = (((v_r_d_tag ?e OR L1_VBIT_MASK) AND NOT L1_DIRTYBIT_MASK)
                             AND NOT L1_ENTRY_TAG_MASK) OR l1_tag_bits address,
              l1_cache_line = copy_words 8 write_data (l1_cache_line ?e)\<rparr>"
  have valid: "\<forall>i<4. l1_valid (lines ?s i)"
    using assms by (simp only: l1_index_set_bits_eq)
  have sel: "l1_selected_way ?s = nru_victim_spec ?s"
    by (rule l1_selected_way_all_valid(2) [OF valid])
  have "fst (l1_insert_line address write_data ea ed status l1)
          = l1_entry_update ?i (l1_selected_way ?s) (\<lambda>_. ?e') l1"
    using l1_insert_line_all_valid [of l1 address write_data ea ed status] valid
    by (simp add: Let_def)
  moreover have "line_words (l1_cache_line ?e') = line_words write_data" by simp
  moreover have "l1_entry_tag ?e' = drop_bit 14 address"
    by (simp add: l1_entry_tag_def l1_overwrite_bits(4)) (simp add: l1_tag_bits_eq)
  ultimately have upd: "\<exists>e'. fst (l1_insert_line address write_data ea ed status l1)
                     = l1_entry_update ?i (nru_victim_spec ?s) (\<lambda>_. e') l1
                 \<and> line_words (l1_cache_line e') = line_words write_data
                 \<and> l1_entry_tag e' = drop_bit 14 address"
    unfolding sel by blast
  from sel upd show ?thesis
    unfolding Let_def l1_index_set_bits_eq [symmetric]
    by (auto simp: nru_victim_spec_first)
qed

theorem l1_insert_line_nru_witness:
  "l1_selected_way (ex_set 0xE0000001 0xA0000002 0x80000003 0x80000004) = 2
   \<and> nru_victim_spec (ex_set 0xE0000001 0xA0000002 0x80000003 0x80000004) = 2
   \<and> l1_selected_way (ex_set 0x80000001 0xA0000002 0x80000003 0xC0000004) = 0"
  using l1_insert_line_nru [where address = "0x40" and write_data = "\<lambda>_. 7" and ea = 0
      and ed = "\<lambda>_. 0" and status = 0
      and ?l1.0 = "\<lambda>_. ex_set 0xE0000001 0xA0000002 0x80000003 0x80000004"]
    l1_insert_line_nru [where address = "0x40" and write_data = "\<lambda>_. 7" and ea = 0
      and ed = "\<lambda>_. 0" and status = 0
      and ?l1.0 = "\<lambda>_. ex_set 0x80000001 0xA0000002 0x80000003 0xC0000004"]
  by (simp add: all_less_4 Let_def ex_set_def l1_flag_defs nru_victim_spec_def nru_first_def upt_4)

section \<open>L1: the overwrite of a replaced way\<close>

text \<open>
  Claim C5, as stated, fails: with four valid ways that all have reference=1 and dirty=0,
  way 0 is selected and its reference bit is still 1 when \<^verbatim>\<open>l1_insert_line\<close> returns.
\<close>

theorem l1_insert_line_reference_counterexample:
  "l1_valid (lines (ex_set 0xC0000001 0xC0000002 0xC0000003 0xC0000004) 0)
   \<and> l1_valid (lines (ex_set 0xC0000001 0xC0000002 0xC0000003 0xC0000004) 1)
   \<and> l1_valid (lines (ex_set 0xC0000001 0xC0000002 0xC0000003 0xC0000004) 2)
   \<and> l1_valid (lines (ex_set 0xC0000001 0xC0000002 0xC0000003 0xC0000004) 3)
   \<and> l1_selected_way (ex_set 0xC0000001 0xC0000002 0xC0000003 0xC0000004) = 0
   \<and> l1_reference (lines (fst (l1_insert_line 0x40 (\<lambda>_. 7) 0 (\<lambda>_. 0) 0
          (\<lambda>_. ex_set 0xC0000001 0xC0000002 0xC0000003 0xC0000004)) 2) 0)"
  by (simp add: l1_insert_line_def l1_selected_way_def l1_curr_entry_def upt_4
      L1_LINES_PER_SET_def Let_def ex_set_def l1_flag_defs l1_entry_update_def
      l1_index_set_bits_def L1_SET_INDEX_MASK_def L1_SET_INDEX_SHIFT_def
      l1_tag_bits_def L1_ADDRESS_TAG_MASK_def L1_ADDRESS_TAG_SHIFT_def)

text \<open>
  Claim C5, amended. When all four ways of the target set are valid, the overwrite of the
  selected way copies the new line, sets valid, clears dirty and sets the new tag, and
  leaves the reference bit of the selected entry as it was before the call. So the bit is
  1 on return exactly when all four ways had reference=1, and 0 otherwise.
\<close>

theorem l1_insert_line_overwrite:
  assumes "\<forall>i<4. l1_valid (lines (l1 (unat (take_bit 9 (drop_bit 5 address)))) i)"
  shows "let set_index = unat (take_bit 9 (drop_bit 5 address));
             s = l1 set_index;
             way = l1_selected_way s;
             e = lines s way;
             e' = lines (fst (l1_insert_line address write_data ea ed status l1) set_index) way
         in line_words (l1_cache_line e') = line_words write_data
          \<and> l1_valid e' \<and> \<not> l1_dirty e' \<and> l1_entry_tag e' = drop_bit 14 address
          \<and> l1_reference e' = l1_reference e
          \<and> l1_reference e' = (l1_reference (lines s 0) \<and> l1_reference (lines s 1)
                               \<and> l1_reference (lines s 2) \<and> l1_reference (lines s 3))"
proof -
  let ?i = "unat (l1_index_set_bits address)"
  let ?s = "l1 ?i"
  let ?e = "lines ?s (l1_selected_way ?s)"
  let ?e' = "\<lparr>v_r_d_tag = (((v_r_d_tag ?e OR L1_VBIT_MASK) AND NOT L1_DIRTYBIT_MASK)
                             AND NOT L1_ENTRY_TAG_MASK) OR l1_tag_bits address,
              l1_cache_line = copy_words 8 write_data (l1_cache_line ?e)\<rparr>"
  have valid: "\<forall>i<4. l1_valid (lines ?s i)"
    using assms by (simp only: l1_index_set_bits_eq)
  have sel: "l1_selected_way ?s = nru_victim_spec ?s"
    by (rule l1_selected_way_all_valid(2) [OF valid])
  have "fst (l1_insert_line address write_data ea ed status l1)
          = l1_entry_update ?i (l1_selected_way ?s) (\<lambda>_. ?e') l1"
    using l1_insert_line_all_valid [of l1 address write_data ea ed status] valid
    by (simp add: Let_def)
  then have e': "lines (fst (l1_insert_line address write_data ea ed status l1) ?i)
                   (l1_selected_way ?s) = ?e'"
    by (simp add: l1_entry_update_apply)
  have "line_words (l1_cache_line ?e') = line_words write_data" by simp
  moreover have "l1_valid ?e'" by (simp add: l1_valid_bit l1_overwrite_bits(1))
  moreover have "\<not> l1_dirty ?e'" by (simp add: l1_dirty_bit l1_overwrite_bits(2))
  moreover have "l1_entry_tag ?e' = drop_bit 14 address"
    by (simp add: l1_entry_tag_def l1_overwrite_bits(4)) (simp add: l1_tag_bits_eq)
  moreover have r: "l1_reference ?e' = l1_reference ?e"
    by (simp add: l1_reference_bit l1_overwrite_bits(3))
  moreover have "l1_reference ?e' = (l1_reference (lines ?s 0) \<and> l1_reference (lines ?s 1)
                               \<and> l1_reference (lines ?s 2) \<and> l1_reference (lines ?s 3))"
    using r nru_victim_spec_reference [of ?s] by (simp only: sel all_less_4)
  ultimately show ?thesis
    unfolding Let_def l1_index_set_bits_eq [symmetric] e' by blast
qed

theorem l1_insert_line_overwrite_witness:
  "l1_reference (lines (fst (l1_insert_line 0x40 (\<lambda>_. 7) 0 (\<lambda>_. 0) 0
          (\<lambda>_. ex_set 0xC0000001 0xC0000002 0xC0000003 0xC0000004)) 2) 0)
   \<and> \<not> l1_reference (lines (fst (l1_insert_line 0x40 (\<lambda>_. 7) 0 (\<lambda>_. 0) 0
          (\<lambda>_. ex_set 0xE0000001 0xA0000002 0x80000003 0x80000004)) 2) 2)
   \<and> l1_entry_tag (lines (fst (l1_insert_line 0x40 (\<lambda>_. 7) 0 (\<lambda>_. 0) 0
          (\<lambda>_. ex_set 0xE0000001 0xA0000002 0x80000003 0x80000004)) 2) 2) = 0"
  using l1_insert_line_overwrite [where address = "0x40" and write_data = "\<lambda>_. 7" and ea = 0
      and ed = "\<lambda>_. 0" and status = 0
      and ?l1.0 = "\<lambda>_. ex_set 0xC0000001 0xC0000002 0xC0000003 0xC0000004"]
    l1_insert_line_overwrite [where address = "0x40" and write_data = "\<lambda>_. 7" and ea = 0
      and ed = "\<lambda>_. 0" and status = 0
      and ?l1.0 = "\<lambda>_. ex_set 0xE0000001 0xA0000002 0x80000003 0x80000004"]
  by (simp add: all_less_4 Let_def ex_set_def l1_flag_defs l1_selected_way_def
      l1_curr_entry_def upt_4 L1_LINES_PER_SET_def)

section \<open>Initialisation, entry by entry\<close>

lemma fold_upt_update:
  "fold (\<lambda>i c. c(i := g (c i))) [0..<n] c j = (if j < n then g (c j) else c j)"
  by (induction n arbitrary: j) auto

lemma l2_initialize_apply:
  "l2_initialize l2 i =
     (if i < L2_NUM_CACHE_ENTRIES then (l2 i)\<lparr>v_d_tag := v_d_tag (l2 i) AND NOT L2_VBIT_MASK\<rparr>
      else l2 i)"
  unfolding l2_initialize_def by (rule fold_upt_update)

lemma fold_l1_ways:
  "lines (fold (\<lambda>j. l1_entry_update i j f) [0..<m] c i') j' =
     (if i' = i \<and> j' < m then f (lines (c i') j') else lines (c i') j')"
  by (induction m arbitrary: j') (auto simp: l1_entry_update_apply)

lemma fold_l1_sets:
  "lines (fold (\<lambda>i c. fold (\<lambda>j. l1_entry_update i j f) [0..<m] c) [0..<n] c i') j' =
     (if i' < n \<and> j' < m then f (lines (c i') j') else lines (c i') j')"
  by (induction n arbitrary: i') (auto simp: fold_l1_ways)

lemma l1_initialize_apply:
  "lines (l1_initialize l1 i) j =
     (if i < L1_NUM_CACHE_SETS \<and> j < L1_LINES_PER_SET then (lines (l1 i) j)\<lparr>v_r_d_tag := 0\<rparr>
      else lines (l1 i) j)"
  unfolding l1_initialize_def by (rule fold_l1_sets)

lemma l1_clear_r_bits_apply:
  "lines (l1_clear_r_bits l1 i) j =
     (if i < L1_NUM_CACHE_SETS \<and> j < L1_LINES_PER_SET
      then (lines (l1 i) j)\<lparr>v_r_d_tag := v_r_d_tag (lines (l1 i) j) AND NOT L1_RBIT_MASK\<rparr>
      else lines (l1 i) j)"
  unfolding l1_clear_r_bits_def by (rule fold_l1_sets)

lemma fold_zero: "fold (\<lambda>i m. m(i := 0)) [0..<n] m j = (if j < n then 0 else m j)"
  by (induction n arbitrary: j) auto

lemma main_memory_initialize_apply:
  "main_memory_initialize size_in_bytes mm = Inr mm' \<Longrightarrow>
     main_memory_size_in_bytes mm' = size_in_bytes
   \<and> main_memory mm' j = (if j < unat (size_in_bytes div 4) then 0 else main_memory mm j)"
  by (auto simp: main_memory_initialize_def fold_zero split: if_splits)

lemma unat_l1_index_set_bits: "unat (l1_index_set_bits address) < L1_NUM_CACHE_SETS"
proof -
  have "unat (take_bit 9 (drop_bit 5 address)) < 2 ^ 9"
    by (simp add: unsigned_take_bit_eq take_bit_nat_def)
  then show ?thesis by (simp add: l1_index_set_bits_eq L1_NUM_CACHE_SETS_def)
qed

lemma unat_l2_index_bits: "unat (l2_index_bits address) < L2_NUM_CACHE_ENTRIES"
proof -
  have "unat (take_bit 15 (drop_bit 5 address)) < 2 ^ 15"
    by (simp add: unsigned_take_bit_eq take_bit_nat_def)
  then show ?thesis by (simp add: l2_index_bits_eq L2_NUM_CACHE_ENTRIES_def)
qed

section \<open>Miss accounting\<close>

lemma status_test [simp]: "(st AND L1_CACHE_HIT_MASK = 0) = (\<not> bit st 0)"
  using and_exp_eq_0_iff_not_bit [of st 0] by (simp add: L1_CACHE_HIT_MASK_def)

lemma status_bit0 [simp]:
  "bit (st AND NOT L1_CACHE_HIT_MASK) 0 = False"
  "bit (st OR L1_CACHE_HIT_MASK) 0 = True"
  "bit (st AND - 2) 0 = False"
  "bit (st OR 1) 0 = True"
  for st :: uint8_t
proof -
  have m2: "(- 2 :: uint8_t) = NOT 1" by simp
  show "bit (st AND NOT L1_CACHE_HIT_MASK) 0 = False"
    by (simp add: word_bits bit_1_iff L1_CACHE_HIT_MASK_def)
  show "bit (st OR L1_CACHE_HIT_MASK) 0 = True"
    by (simp add: word_bits bit_1_iff L1_CACHE_HIT_MASK_def)
  show "bit (st AND - 2) 0 = False"
    unfolding m2 by (simp add: word_bits bit_1_iff)
  show "bit (st OR 1) 0 = True"
    by (simp add: word_bits bit_1_iff)
qed

lemma control_read [simp]: "READ_ENABLE_MASK AND READ_ENABLE_MASK \<noteq> 0"
  "WRITE_ENABLE_MASK AND READ_ENABLE_MASK = 0"
  "WRITE_ENABLE_MASK AND WRITE_ENABLE_MASK \<noteq> 0"
  "READ_ENABLE_MASK AND WRITE_ENABLE_MASK = 0"
  by (simp_all add: READ_ENABLE_MASK_def WRITE_ENABLE_MASK_def)

lemma initialized_state:
  assumes "memory_subsystem_initialize size_in_bytes s0 = Inr s"
  shows "j < L1_LINES_PER_SET \<Longrightarrow> v_r_d_tag (lines (l1_cache s (unat (l1_index_set_bits address))) j) = 0"
    and "\<not> l2_valid (l2_cache s (unat (l2_index_bits address)))"
    and "main_memory_size_in_bytes (mem s) = size_in_bytes"
    and "num_l1_misses s = 0" and "num_l2_misses s = 0"
proof -
  obtain mm where mm: "main_memory_initialize size_in_bytes (mem s0) = Inr mm"
    and s: "s = \<lparr>l1_cache = l1_initialize (l1_cache s0), l2_cache = l2_initialize (l2_cache s0),
               mem = mm, num_l1_misses = 0, num_l2_misses = 0\<rparr>"
    using assms by (auto simp: memory_subsystem_initialize_def split: sum.splits)
  show "j < L1_LINES_PER_SET \<Longrightarrow> v_r_d_tag (lines (l1_cache s (unat (l1_index_set_bits address))) j) = 0"
    by (simp add: s l1_initialize_apply unat_l1_index_set_bits)
  show "\<not> l2_valid (l2_cache s (unat (l2_index_bits address)))"
    by (simp add: s l2_initialize_apply unat_l2_index_bits l2_valid_bit word_bits mask_bits)
  show "main_memory_size_in_bytes (mem s) = size_in_bytes"
    using main_memory_initialize_apply [OF mm] by (simp add: s)
  show "num_l1_misses s = 0" and "num_l2_misses s = 0" by (simp_all add: s)
qed

lemma l1_invalid_zero: "v_r_d_tag e = 0 \<Longrightarrow> \<not> l1_valid e"
  by (simp add: l1_valid_def)

lemma first_access:
  assumes init: "memory_subsystem_initialize size_in_bytes s0 = Inr s"
    and addr: "address < size_in_bytes"
  shows "\<exists>s1 r. memory_access stk address w c rd s = Inr (s1, r)
            \<and> num_l1_misses s1 = 1 \<and> num_l2_misses s1 = 1"
proof -
  note st = initialized_state [OF init]
  have z: "\<And>j. j < 4 \<Longrightarrow> \<not> l1_valid (lines (l1_cache s (unat (l1_index_set_bits address))) j)"
    using st(1) by (simp add: l1_invalid_zero L1_LINES_PER_SET_def)
  have a: "\<not> size_in_bytes \<le> address" using addr by simp
  show ?thesis
    using z st(2) a
    by (simp add: memory_access_def memory_handle_l1_miss_def l1_miss_fetch_def
        l1_miss_insert_def memory_handle_l2_miss_def main_memory_access_def
        l1_cache_access_def l1_insert_line_def l2_cache_access_def l2_insert_line_def
        Let_def L1_LINES_PER_SET_def upt_4 st(3) st(4) st(5)
        l2_fresh_valid l2_fresh_tag l1_entry_update_def)
qed


subsection \<open>What an L1 access and an L1 insertion do to the entries\<close>

lemma l1_touch_bits:
  fixes v :: uint32_t
  shows "bit (v OR L1_RBIT_MASK) 31 = bit v 31"
    and "bit ((v OR L1_RBIT_MASK) OR L1_DIRTYBIT_MASK) 31 = bit v 31"
    and "(v OR L1_RBIT_MASK) AND L1_ENTRY_TAG_MASK = v AND L1_ENTRY_TAG_MASK"
    and "((v OR L1_RBIT_MASK) OR L1_DIRTYBIT_MASK) AND L1_ENTRY_TAG_MASK = v AND L1_ENTRY_TAG_MASK"
proof -
  show "bit (v OR L1_RBIT_MASK) 31 = bit v 31" by (simp add: word_bits mask_bits)
  show "bit ((v OR L1_RBIT_MASK) OR L1_DIRTYBIT_MASK) 31 = bit v 31"
    by (simp add: word_bits mask_bits)
  show "(v OR L1_RBIT_MASK) AND L1_ENTRY_TAG_MASK = v AND L1_ENTRY_TAG_MASK"
    by (rule bit_word_eqI) (auto simp: word_bits mask_bits)
  show "((v OR L1_RBIT_MASK) OR L1_DIRTYBIT_MASK) AND L1_ENTRY_TAG_MASK = v AND L1_ENTRY_TAG_MASK"
    by (rule bit_word_eqI) (auto simp: word_bits mask_bits)
qed

lemma l1_find_hit_cong:
  "(\<And>j. j \<in> set ws \<Longrightarrow> l1_valid (lines s j) = l1_valid (lines s' j)
                        \<and> l1_entry_tag (lines s j) = l1_entry_tag (lines s' j))
   \<Longrightarrow> l1_find_hit s t ws = l1_find_hit s' t ws"
  by (induction ws) auto

lemma l1_cache_access_entry:
  "l1_valid (lines (fst (l1_cache_access a w c rd st l1) k) j) = l1_valid (lines (l1 k) j)
   \<and> l1_entry_tag (lines (fst (l1_cache_access a w c rd st l1) k) j)
       = l1_entry_tag (lines (l1 k) j)"
  by (simp add: l1_cache_access_def Let_def l1_entry_update_apply l1_valid_bit l1_entry_tag_def
      l1_touch_bits split: option.split)

lemma l1_cache_access_find:
  "l1_find_hit (fst (l1_cache_access a w c rd st l1) k) t ws = l1_find_hit (l1 k) t ws"
  by (rule l1_find_hit_cong) (simp add: l1_cache_access_entry)

lemma l1_cache_access_hit:
  "l1_find_hit (l1 (unat (l1_index_set_bits address))) (l1_tag_bits address)
      [0..<L1_LINES_PER_SET] = Some i
   \<Longrightarrow> bit (snd (snd (l1_cache_access address w c rd st l1))) 0"
  by (simp add: l1_cache_access_def Let_def)

lemma l1_scan_Inl:
  "l1_scan s ws acc = Inl i \<Longrightarrow> i \<in> set ws \<and> \<not> l1_valid (lines s i)"
proof (induction ws arbitrary: acc)
  case Nil
  then show ?case by simp
next
  case (Cons w ws)
  obtain a b c where acc: "acc = (a, b, c)" by (cases acc) auto
  show ?case
    using Cons.prems Cons.IH unfolding acc
    by (auto simp: Let_def split: if_splits)
qed

lemma l1_scan_Inr:
  "l1_scan s ws acc = Inr idx \<Longrightarrow> \<forall>i\<in>set ws. l1_valid (lines s i)"
proof (induction ws arbitrary: acc)
  case Nil
  then show ?case by simp
next
  case (Cons w ws)
  obtain a b c where acc: "acc = (a, b, c)" by (cases acc) auto
  show ?case
    using Cons.prems Cons.IH unfolding acc
    by (auto simp: Let_def split: if_splits)
qed

lemma nru_victim_spec_less: "nru_victim_spec s < 4"
  by (auto simp: nru_victim_spec_def split: option.splits dest: nru_first_Some)

text \<open>The way that receives the line is one of the four ways of the set.\<close>

lemma l1_selected_way_less: "l1_selected_way s < L1_LINES_PER_SET"
proof (cases "l1_scan s [0..<L1_LINES_PER_SET] (NOT 0, NOT 0, NOT 0)")
  case (Inl i)
  then show ?thesis
    using l1_scan_Inl [OF Inl] by (simp add: l1_selected_way_def)
next
  case (Inr idx)
  then have "\<forall>i<4. l1_valid (lines s i)"
    using l1_scan_Inr [OF Inr] by (simp add: L1_LINES_PER_SET_def)
  then show ?thesis
    using l1_selected_way_all_valid(2) [of s] nru_victim_spec_less [of s]
    by (simp add: L1_LINES_PER_SET_def)
qed

text \<open>
  In both branches \<^verbatim>\<open>l1_insert_line\<close> writes one entry, the selected way of the set of
  the address; the entry is then valid and clean, with the tag of the address and the new
  line.
\<close>

lemma l1_fill_bits:
  fixes v :: uint32_t and address :: uint32_t
  defines "v' \<equiv> ((((v OR L1_VBIT_MASK) AND NOT L1_DIRTYBIT_MASK) AND NOT L1_RBIT_MASK)
                    AND NOT L1_ENTRY_TAG_MASK) OR l1_tag_bits address"
  shows "bit v' 31" and "\<not> bit v' 29" and "\<not> bit v' 30"
    and "v' AND L1_ENTRY_TAG_MASK = l1_tag_bits address"
proof -
  show "bit v' 31" by (simp add: v'_def word_bits mask_bits)
  show "\<not> bit v' 29" by (auto simp: v'_def word_bits mask_bits dest: bit_l1_tag_bits)
  show "\<not> bit v' 30" by (auto simp: v'_def word_bits mask_bits dest: bit_l1_tag_bits)
  show "v' AND L1_ENTRY_TAG_MASK = l1_tag_bits address"
    unfolding v'_def
    by (rule bit_word_eqI) (auto simp: word_bits mask_bits dest: bit_l1_tag_bits)
qed

lemma l1_insert_line_cache:
  "\<exists>e'. fst (l1_insert_line address write_data ea ed status l1)
          = l1_entry_update (unat (l1_index_set_bits address))
              (l1_selected_way (l1 (unat (l1_index_set_bits address)))) (\<lambda>_. e') l1
       \<and> l1_valid e' \<and> \<not> l1_dirty e' \<and> l1_entry_tag e' = l1_tag_bits address
       \<and> line_words (l1_cache_line e') = line_words write_data"
proof (cases "l1_scan (l1 (unat (l1_index_set_bits address))) [0..<L1_LINES_PER_SET]
                (NOT 0, NOT 0, NOT 0)")
  case (Inl i)
  let ?e = "lines (l1 (unat (l1_index_set_bits address))) i"
  let ?e' = "\<lparr>v_r_d_tag = ((((v_r_d_tag ?e OR L1_VBIT_MASK) AND NOT L1_DIRTYBIT_MASK)
                 AND NOT L1_RBIT_MASK) AND NOT L1_ENTRY_TAG_MASK) OR l1_tag_bits address,
              l1_cache_line = copy_words WORDS_PER_CACHE_LINE write_data (l1_cache_line ?e)\<rparr>"
  have "fst (l1_insert_line address write_data ea ed status l1)
          = l1_entry_update (unat (l1_index_set_bits address))
              (l1_selected_way (l1 (unat (l1_index_set_bits address)))) (\<lambda>_. ?e') l1"
    unfolding l1_insert_line_def l1_selected_way_def Let_def Inl by simp
  moreover have "l1_valid ?e' \<and> \<not> l1_dirty ?e' \<and> l1_entry_tag ?e' = l1_tag_bits address
       \<and> line_words (l1_cache_line ?e') = line_words write_data"
    by (simp add: l1_valid_bit l1_dirty_bit l1_entry_tag_def l1_fill_bits)
  ultimately show ?thesis by blast
next
  case (Inr idx)
  let ?e = "lines (l1 (unat (l1_index_set_bits address))) (unat (l1_curr_entry idx))"
  let ?e' = "\<lparr>v_r_d_tag = (((v_r_d_tag ?e OR L1_VBIT_MASK) AND NOT L1_DIRTYBIT_MASK)
                 AND NOT L1_ENTRY_TAG_MASK) OR l1_tag_bits address,
              l1_cache_line = copy_words 8 write_data (l1_cache_line ?e)\<rparr>"
  have "fst (l1_insert_line address write_data ea ed status l1)
          = l1_entry_update (unat (l1_index_set_bits address))
              (l1_selected_way (l1 (unat (l1_index_set_bits address)))) (\<lambda>_. ?e') l1"
    unfolding l1_insert_line_def l1_selected_way_def Let_def Inr by simp
  moreover have "l1_valid ?e' \<and> \<not> l1_dirty ?e' \<and> l1_entry_tag ?e' = l1_tag_bits address
       \<and> line_words (l1_cache_line ?e') = line_words write_data"
    by (simp add: l1_valid_bit l1_dirty_bit l1_entry_tag_def l1_overwrite_bits)
  ultimately show ?thesis by blast
qed

lemma l1_insert_line_present:
  "l1_find_hit (fst (l1_insert_line address write_data ea ed status l1)
                  (unat (l1_index_set_bits address)))
     (l1_tag_bits address) [0..<L1_LINES_PER_SET] \<noteq> None"
proof -
  let ?i = "unat (l1_index_set_bits address)"
  obtain e' where
    c: "fst (l1_insert_line address write_data ea ed status l1)
          = l1_entry_update ?i (l1_selected_way (l1 ?i)) (\<lambda>_. e') l1"
    and e': "l1_valid e'" "l1_entry_tag e' = l1_tag_bits address"
    using l1_insert_line_cache [of address write_data ea ed status l1] by blast
  have "l1_selected_way (l1 ?i) \<in> set [0..<L1_LINES_PER_SET]"
    using l1_selected_way_less [of "l1 ?i"] by simp
  then show ?thesis
    unfolding c l1_find_hit_None using e'
    by (auto simp: l1_entry_update_apply)
qed


subsection \<open>The miss handlers and the L1 cache\<close>

lemma memory_handle_l2_miss_frame:
  "memory_handle_l2_miss loc address control s = Inr s' \<Longrightarrow>
     l1_cache s' = l1_cache s \<and> num_l1_misses s' = num_l1_misses s
     \<and> num_l2_misses s' = num_l2_misses s"
  by (auto simp: memory_handle_l2_miss_def split: sum.splits prod.splits if_splits)

lemma l1_miss_fetch_frame:
  "l1_miss_fetch loc loc_r address s = Inr (s1, read_data, status) \<Longrightarrow>
     l1_cache s1 = l1_cache s \<and> num_l1_misses s1 = num_l1_misses s"
  by (auto simp: l1_miss_fetch_def split: sum.splits prod.splits if_splits
      dest!: memory_handle_l2_miss_frame)

lemma l1_miss_insert_frame:
  "l1_miss_insert loc loc_w address read_data status s = Inr s2 \<Longrightarrow>
     l1_cache s2 = fst (l1_insert_line address read_data (evicted_writeback_address_0 loc)
                          (evicted_writeback_data_0 loc) status (l1_cache s))
     \<and> num_l1_misses s2 = num_l1_misses s \<and> num_l2_misses s2 = num_l2_misses s"
  by (auto simp: l1_miss_insert_def split: sum.splits prod.splits if_splits
      dest!: memory_handle_l2_miss_frame)

lemma memory_handle_l1_miss_present:
  assumes "memory_handle_l1_miss loc loc_r loc_w address s = Inr s2"
  shows "l1_find_hit (l1_cache s2 (unat (l1_index_set_bits address))) (l1_tag_bits address)
           [0..<L1_LINES_PER_SET] \<noteq> None"
    and "num_l1_misses s2 = num_l1_misses s"
proof -
  obtain s1 read_data status where
    f: "l1_miss_fetch loc loc_r address s = Inr (s1, read_data, status)"
    and i: "l1_miss_insert loc loc_w address read_data status s1 = Inr s2"
    using assms by (auto simp: memory_handle_l1_miss_def split: sum.splits)
  show "l1_find_hit (l1_cache s2 (unat (l1_index_set_bits address))) (l1_tag_bits address)
           [0..<L1_LINES_PER_SET] \<noteq> None"
    using l1_miss_insert_frame [OF i] by (simp add: l1_insert_line_present)
  show "num_l1_misses s2 = num_l1_misses s"
    using l1_miss_insert_frame [OF i] l1_miss_fetch_frame [OF f] by simp
qed

text \<open>After a call of \<^verbatim>\<open>memory_access\<close> that returns, the line of the address is in L1.\<close>

lemma memory_access_present:
  assumes "memory_access stk address w c rd s = Inr (s1, r)"
  shows "l1_find_hit (l1_cache s1 (unat (l1_index_set_bits address))) (l1_tag_bits address)
           [0..<L1_LINES_PER_SET] \<noteq> None"
proof (cases "l1_find_hit (l1_cache s (unat (l1_index_set_bits address))) (l1_tag_bits address)
           [0..<L1_LINES_PER_SET]")
  case None
  from l1_cache_access_miss [of "l1_cache s" address w c rd "access_status_0 stk"] None
  obtain s2 where
    m: "memory_handle_l1_miss (l1_miss_locals stk) (l2_read_miss_locals stk)
          (l2_write_miss_locals stk) address
          (s\<lparr>l1_cache := l1_cache s, num_l1_misses := num_l1_misses s + 1\<rparr>) = Inr s2"
    and s1: "l1_cache s1 = fst (l1_cache_access address w c rd (access_status_0 stk AND NOT 1)
                                  (l1_cache s2))"
    using assms
    by (auto simp: memory_access_def split: sum.splits prod.splits)
  show ?thesis
    unfolding s1 l1_cache_access_find using memory_handle_l1_miss_present(1) [OF m] .
next
  case (Some i)
  have "bit (snd (snd (l1_cache_access address w c rd (access_status_0 stk) (l1_cache s)))) 0"
    using l1_cache_access_hit [of "l1_cache s" address i w c rd "access_status_0 stk"] Some
    by simp
  then have "l1_cache s1 = fst (l1_cache_access address w c rd (access_status_0 stk) (l1_cache s))"
    using assms by (auto simp: memory_access_def split: sum.splits prod.splits)
  then show ?thesis
    using Some by (simp add: l1_cache_access_find)
qed

text \<open>An access to a line that is in L1 returns and leaves both counters alone.\<close>

lemma memory_access_hit:
  assumes "l1_find_hit (l1_cache s (unat (l1_index_set_bits address))) (l1_tag_bits address)
           [0..<L1_LINES_PER_SET] \<noteq> None"
  shows "case memory_access stk address w c rd s of
           Inl e \<Rightarrow> False
         | Inr (s1, r) \<Rightarrow> num_l1_misses s1 = num_l1_misses s
                         \<and> num_l2_misses s1 = num_l2_misses s"
proof -
  obtain i where Some: "l1_find_hit (l1_cache s (unat (l1_index_set_bits address)))
      (l1_tag_bits address) [0..<L1_LINES_PER_SET] = Some i"
    using assms by auto
  have "bit (snd (snd (l1_cache_access address w c rd (access_status_0 stk) (l1_cache s)))) 0"
    using l1_cache_access_hit [of "l1_cache s" address i w c rd "access_status_0 stk"] Some
    by simp
  then show ?thesis
    by (auto simp: memory_access_def split: sum.splits prod.splits)
qed

text \<open>
  Claim C3. Right after \<^verbatim>\<open>memory_subsystem_initialize\<close>, the first \<^verbatim>\<open>memory_access\<close> to an
  address below the memory size returns and adds exactly 1 to each of \<^verbatim>\<open>num_l1_misses\<close>
  and \<^verbatim>\<open>num_l2_misses\<close>; a second access to the same address returns and changes neither
  counter.
\<close>

theorem miss_accounting:
  assumes "memory_subsystem_initialize size_in_bytes s0 = Inr s"
    and "address < size_in_bytes"
  shows "case memory_access stk address w c rd s of
           Inl e \<Rightarrow> False
         | Inr (s1, r1) \<Rightarrow>
             num_l1_misses s1 = num_l1_misses s + 1
           \<and> num_l2_misses s1 = num_l2_misses s + 1
           \<and> (case memory_access stk' address w' c' rd' s1 of
                 Inl e \<Rightarrow> False
               | Inr (s2, r2) \<Rightarrow>
                   num_l1_misses s2 = num_l1_misses s1
                 \<and> num_l2_misses s2 = num_l2_misses s1)"
proof -
  obtain s1 r1 where
    a: "memory_access stk address w c rd s = Inr (s1, r1)"
    and c: "num_l1_misses s1 = 1" "num_l2_misses s1 = 1"
    using first_access [OF assms, of stk w c rd] by blast
  have z: "num_l1_misses s = 0" "num_l2_misses s = 0"
    using initialized_state(4,5) [OF assms(1)] by simp_all
  from memory_access_hit [OF memory_access_present [OF a], of stk' w' c' rd'] c z
  show ?thesis
    unfolding a by simp
qed

theorem miss_accounting_witness:
  "case memory_access junk_stack 36 0xBBBB 2 0 (projr (memory_subsystem_initialize 64 startup)) of
     Inl e \<Rightarrow> False
   | Inr (s1, r1) \<Rightarrow>
       num_l1_misses s1 = 1 \<and> num_l2_misses s1 = 1
     \<and> (case memory_access junk_stack 36 0 1 0 s1 of
           Inl e \<Rightarrow> False
         | Inr (s2, r2) \<Rightarrow> num_l1_misses s2 = 1 \<and> num_l2_misses s2 = 1)"
proof -
  have i: "memory_subsystem_initialize 64 startup
             = Inr (projr (memory_subsystem_initialize 64 startup))"
    by (simp add: memory_subsystem_initialize_def main_memory_initialize_def)
  have z: "num_l1_misses (projr (memory_subsystem_initialize 64 startup)) = 0"
      "num_l2_misses (projr (memory_subsystem_initialize 64 startup)) = 0"
    by (simp_all add: memory_subsystem_initialize_def main_memory_initialize_def)
  have a: "(36 :: uint32_t) < 64" by simp
  show ?thesis
    using miss_accounting [OF i a, where stk = junk_stack and w = "0xBBBB" and c = 2 and rd = 0
        and stk' = junk_stack and w' = 0 and c' = 1 and rd' = 0]
    by (auto simp: z split: sum.splits prod.splits)
qed

section \<open>Dirty implies valid\<close>

lemma l1_cache_access_dirty_valid:
  assumes "l1_dirty_valid l1"
  shows "l1_dirty_valid (fst (l1_cache_access a w c rd st l1))"
proof -
  have "l1_dirty (lines (fst (l1_cache_access a w c rd st l1) k) j)
        \<Longrightarrow> l1_dirty (lines (l1 k) j) \<or> l1_valid (lines (l1 k) j)" for k j
    by (auto simp: l1_cache_access_def Let_def l1_entry_update_apply
        split: option.splits if_splits dest: l1_find_hit_Some)
  then show ?thesis
    using assms unfolding l1_dirty_valid_def
    by (auto simp: l1_cache_access_entry)
qed

lemma l1_insert_line_dirty_valid:
  assumes "l1_dirty_valid l1"
  shows "l1_dirty_valid (fst (l1_insert_line a wd ea ed st l1))"
proof -
  obtain e' where
    c: "fst (l1_insert_line a wd ea ed st l1)
          = l1_entry_update (unat (l1_index_set_bits a))
              (l1_selected_way (l1 (unat (l1_index_set_bits a)))) (\<lambda>_. e') l1"
    and e': "\<not> l1_dirty e'"
    using l1_insert_line_cache [of a wd ea ed st l1] by blast
  show ?thesis
    using assms e' unfolding c l1_dirty_valid_def
    by (auto simp: l1_entry_update_apply)
qed

lemma l1_clear_r_bits_dirty_valid:
  assumes "l1_dirty_valid l1"
  shows "l1_dirty_valid (l1_clear_r_bits l1)"
  using assms unfolding l1_dirty_valid_def
  by (simp add: l1_clear_r_bits_apply l1_dirty_bit l1_valid_bit word_bits mask_bits)

lemma l1_initialize_dirty_valid: "l1_dirty_valid (l1_initialize l1)"
  unfolding l1_dirty_valid_def
  by (simp add: l1_initialize_apply l1_dirty_def)

lemma l2_cache_access_dirty_since:
  assumes "l2_dirty_since b l2"
  shows "l2_dirty_since b (fst (l2_cache_access a wd c rd st l2))"
  using assms unfolding l2_dirty_since_def
  by (auto simp: l2_cache_access_def Let_def l2_valid_bit l2_dirty_bit word_bits mask_bits
      split: if_splits)

lemma l2_insert_line_dirty_since:
  assumes "l2_dirty_since b l2"
  shows "l2_dirty_since b (fst (l2_insert_line a wd ea ed st l2))"
  using assms unfolding l2_dirty_since_def
  by (auto simp: l2_insert_line_def Let_def l2_fresh_valid split: if_splits)


lemma memory_handle_l2_miss_dirty_valid:
  assumes "memory_handle_l2_miss loc address control s = Inr s'"
  shows "l1_cache s' = l1_cache s"
    and "l2_dirty_since b (l2_cache s) \<Longrightarrow> l2_dirty_since b (l2_cache s')"
proof -
  show "l1_cache s' = l1_cache s"
    using memory_handle_l2_miss_frame [OF assms] by simp
  have "l2_cache s' = fst (l2_insert_line address
            (snd (projr (if control AND READ_ENABLE_MASK \<noteq> 0
                   then main_memory_access address (write_data_0 loc) READ_ENABLE_MASK
                          (line_0 loc) (mem s)
                   else Inr (mem s, line_0 loc))))
            (evicted_writeback_address_0 loc) (evicted_writeback_data_0 loc) (status_0 loc)
            (l2_cache s))"
    using assms
    by (auto simp: memory_handle_l2_miss_def split: sum.splits prod.splits if_splits)
  then show "l2_dirty_since b (l2_cache s) \<Longrightarrow> l2_dirty_since b (l2_cache s')"
    by (simp add: l2_insert_line_dirty_since)
qed

lemma l2_cache_access_dirty_since_eq:
  "l2_cache_access a wd c rd st l2 = (l2', rd', st') \<Longrightarrow> l2_dirty_since b l2
   \<Longrightarrow> l2_dirty_since b l2'"
  using l2_cache_access_dirty_since [of b l2 a wd c rd st] by simp

lemma l1_miss_fetch_dirty_valid:
  assumes f: "l1_miss_fetch loc loc_r address s = Inr (s1, read_data, status)"
    and inv: "l2_dirty_since b (l2_cache s)"
  shows "l2_dirty_since b (l2_cache s1)"
proof -
  obtain l2a rd st where
    a: "l2_cache_access address NULL_line READ_ENABLE_MASK (line_0 loc) (status_0 loc)
          (l2_cache s) = (l2a, rd, st)"
    by (cases "l2_cache_access address NULL_line READ_ENABLE_MASK (line_0 loc) (status_0 loc)
          (l2_cache s)") auto
  have inv_a: "l2_dirty_since b l2a"
    by (rule l2_cache_access_dirty_since_eq [OF a inv])
  show ?thesis
  proof (cases "st AND L1_CACHE_HIT_MASK = 0")
    case False
    then have "s1 = s\<lparr>l2_cache := l2a\<rparr>"
      using f by (simp add: l1_miss_fetch_def a del: status_test)
    then show ?thesis using inv_a by simp
  next
    case True
    then obtain s2 where
      h: "memory_handle_l2_miss loc_r address READ_ENABLE_MASK
            (s\<lparr>l2_cache := l2a, num_l2_misses := num_l2_misses s + 1\<rparr>) = Inr s2"
      and s1: "l2_cache s1 = fst (l2_cache_access address NULL_line READ_ENABLE_MASK rd st
                                   (l2_cache s2))"
      using f
      by (auto simp: l1_miss_fetch_def a simp del: status_test split: sum.splits prod.splits)
    have "l2_dirty_since b (l2_cache s2)"
      using memory_handle_l2_miss_dirty_valid(2) [OF h] inv_a by simp
    then show ?thesis
      unfolding s1 by (rule l2_cache_access_dirty_since)
  qed
qed

lemma l1_miss_insert_dirty_valid:
  assumes i: "l1_miss_insert loc loc_w address read_data status s = Inr s2"
    and inv: "l2_dirty_since b (l2_cache s)"
  shows "l2_dirty_since b (l2_cache s2)"
proof -
  obtain l1' ea ed st1 where
    a: "l1_insert_line address read_data (evicted_writeback_address_0 loc)
          (evicted_writeback_data_0 loc) status (l1_cache s) = (l1', ea, ed, st1)"
    by (cases "l1_insert_line address read_data (evicted_writeback_address_0 loc)
          (evicted_writeback_data_0 loc) status (l1_cache s)") auto
  show ?thesis
  proof (cases "st1 AND L1_CACHE_HIT_MASK \<noteq> 0")
    case False
    then have "s2 = s\<lparr>l1_cache := l1'\<rparr>"
      using i by (simp add: l1_miss_insert_def a del: status_test)
    then show ?thesis using inv by simp
  next
    case wb: True
    obtain l2a temp st2 where
      b: "l2_cache_access ea ed WRITE_ENABLE_MASK (temp_0 loc) st1 (l2_cache s)
            = (l2a, temp, st2)"
      by (cases "l2_cache_access ea ed WRITE_ENABLE_MASK (temp_0 loc) st1 (l2_cache s)") auto
    have inv_a: "l2_dirty_since b l2a"
      by (rule l2_cache_access_dirty_since_eq [OF b inv])
    show ?thesis
    proof (cases "st2 AND L1_CACHE_HIT_MASK = 0")
      case False
      then have "s2 = s\<lparr>l1_cache := l1', l2_cache := l2a\<rparr>"
        using i wb by (simp add: l1_miss_insert_def a b del: status_test)
      then show ?thesis using inv_a by simp
    next
      case True
      then obtain s3 where
        h: "memory_handle_l2_miss loc_w ea WRITE_ENABLE_MASK
              (s\<lparr>l1_cache := l1', l2_cache := l2a\<rparr>) = Inr s3"
        and s2: "l2_cache s2 = fst (l2_cache_access ea read_data WRITE_ENABLE_MASK temp st2
                                     (l2_cache s3))"
        using i wb
        by (auto simp: l1_miss_insert_def a b simp del: status_test
            split: sum.splits prod.splits)
      have "l2_dirty_since b (l2_cache s3)"
        using memory_handle_l2_miss_dirty_valid(2) [OF h] inv_a by simp
      then show ?thesis
        unfolding s2 by (rule l2_cache_access_dirty_since)
    qed
  qed
qed


lemma memory_handle_l1_miss_dirty_valid:
  assumes m: "memory_handle_l1_miss loc loc_r loc_w address s = Inr s2"
  shows "l1_dirty_valid (l1_cache s) \<Longrightarrow> l1_dirty_valid (l1_cache s2)"
    and "l2_dirty_since b (l2_cache s) \<Longrightarrow> l2_dirty_since b (l2_cache s2)"
proof -
  obtain s1 read_data status where
    f: "l1_miss_fetch loc loc_r address s = Inr (s1, read_data, status)"
    and i: "l1_miss_insert loc loc_w address read_data status s1 = Inr s2"
    using m by (auto simp: memory_handle_l1_miss_def split: sum.splits)
  show "l1_dirty_valid (l1_cache s) \<Longrightarrow> l1_dirty_valid (l1_cache s2)"
    using l1_miss_insert_frame [OF i] l1_miss_fetch_frame [OF f]
    by (simp add: l1_insert_line_dirty_valid)
  show "l2_dirty_since b (l2_cache s) \<Longrightarrow> l2_dirty_since b (l2_cache s2)"
    using l1_miss_insert_dirty_valid [OF i] l1_miss_fetch_dirty_valid [OF f] by simp
qed

lemma memory_access_dirty_valid:
  assumes m: "memory_access stk address w c rd s = Inr (s1, r)"
  shows "l1_dirty_valid (l1_cache s) \<Longrightarrow> l1_dirty_valid (l1_cache s1)"
    and "l2_dirty_since b (l2_cache s) \<Longrightarrow> l2_dirty_since b (l2_cache s1)"
proof -
  obtain l1a rd1 st where
    a: "l1_cache_access address w c rd (access_status_0 stk) (l1_cache s) = (l1a, rd1, st)"
    by (cases "l1_cache_access address w c rd (access_status_0 stk) (l1_cache s)") auto
  have l1a: "l1a = fst (l1_cache_access address w c rd (access_status_0 stk) (l1_cache s))"
    by (simp add: a)
  show "l1_dirty_valid (l1_cache s) \<Longrightarrow> l1_dirty_valid (l1_cache s1)"
  proof (cases "st AND L1_CACHE_HIT_MASK = 0")
    case False
    then have "s1 = s\<lparr>l1_cache := l1a\<rparr>"
      using m by (simp add: memory_access_def a del: status_test)
    then show "l1_dirty_valid (l1_cache s) \<Longrightarrow> l1_dirty_valid (l1_cache s1)"
      by (simp add: l1a l1_cache_access_dirty_valid)
  next
    case True
    then obtain s2 where
      h: "memory_handle_l1_miss (l1_miss_locals stk) (l2_read_miss_locals stk)
            (l2_write_miss_locals stk) address
            (s\<lparr>l1_cache := l1a, num_l1_misses := num_l1_misses s + 1\<rparr>) = Inr s2"
      and s1: "l1_cache s1 = fst (l1_cache_access address w c rd1 st (l1_cache s2))"
      using m
      by (auto simp: memory_access_def a simp del: status_test split: sum.splits prod.splits)
    assume "l1_dirty_valid (l1_cache s)"
    then have "l1_dirty_valid l1a" by (simp add: l1a l1_cache_access_dirty_valid)
    then have "l1_dirty_valid (l1_cache s2)"
      using memory_handle_l1_miss_dirty_valid(1) [OF h] by simp
    then show "l1_dirty_valid (l1_cache s1)"
      unfolding s1 by (rule l1_cache_access_dirty_valid)
  qed
  show "l2_dirty_since b (l2_cache s) \<Longrightarrow> l2_dirty_since b (l2_cache s1)"
  proof (cases "st AND L1_CACHE_HIT_MASK = 0")
    case False
    then have "s1 = s\<lparr>l1_cache := l1a\<rparr>"
      using m by (simp add: memory_access_def a del: status_test)
    then show "l2_dirty_since b (l2_cache s) \<Longrightarrow> l2_dirty_since b (l2_cache s1)" by simp
  next
    case True
    then obtain s2 where
      h: "memory_handle_l1_miss (l1_miss_locals stk) (l2_read_miss_locals stk)
            (l2_write_miss_locals stk) address
            (s\<lparr>l1_cache := l1a, num_l1_misses := num_l1_misses s + 1\<rparr>) = Inr s2"
      and s1: "l2_cache s1 = l2_cache s2"
      using m
      by (auto simp: memory_access_def a simp del: status_test split: sum.splits prod.splits)
    assume "l2_dirty_since b (l2_cache s)"
    then show "l2_dirty_since b (l2_cache s1)"
      unfolding s1 using memory_handle_l1_miss_dirty_valid(2) [OF h] by simp
  qed
qed

lemma step_dirty_valid:
  assumes "step r s = Inr s'"
  shows "is_Initialize r \<or> l1_dirty_valid (l1_cache s) \<Longrightarrow> l1_dirty_valid (l1_cache s')"
    and "\<not> is_Initialize r \<Longrightarrow> l2_dirty_since b (l2_cache s) \<Longrightarrow> l2_dirty_since b (l2_cache s')"
proof -
  show "is_Initialize r \<or> l1_dirty_valid (l1_cache s) \<Longrightarrow> l1_dirty_valid (l1_cache s')"
    using assms
    by (cases r)
       (auto simp: memory_subsystem_initialize_def memory_handle_clock_interrupt_def
          l1_initialize_dirty_valid l1_clear_r_bits_dirty_valid
          split: sum.splits dest: memory_access_dirty_valid(1))
  show "\<not> is_Initialize r \<Longrightarrow> l2_dirty_since b (l2_cache s) \<Longrightarrow> l2_dirty_since b (l2_cache s')"
    using assms
    by (cases r)
       (auto simp: memory_handle_clock_interrupt_def
          split: sum.splits dest: memory_access_dirty_valid(2))
qed

lemma run_l1_dirty_valid:
  assumes "run rs s = Inr s'" and "l1_dirty_valid (l1_cache s)"
  shows "l1_dirty_valid (l1_cache s')"
  using assms
proof (induction rs arbitrary: s)
  case Nil
  then show ?case by simp
next
  case (Cons r rs)
  then obtain s1 where s1: "step r s = Inr s1" and rest: "run rs s1 = Inr s'"
    by (auto split: sum.splits)
  show ?case
    using Cons.IH [OF rest] step_dirty_valid(1) [OF s1] Cons.prems(2) by simp
qed

text \<open>What \<^verbatim>\<open>l2_initialize\<close> leaves of the array it is given.\<close>

lemma l2_initialize_dirty_since: "l2_dirty_since l2 (l2_initialize l2)"
  unfolding l2_dirty_since_def
  by (simp add: l2_initialize_apply l2_dirty_bit word_bits mask_bits)

lemma step_Initialize_dirty_since:
  assumes "step r s = Inr s'" and "is_Initialize r"
  shows "l2_dirty_since (l2_cache s) (l2_cache s')"
  using assms
  by (cases r)
     (auto simp: memory_subsystem_initialize_def l2_initialize_dirty_since split: sum.splits)

lemma run_l2_dirty_since:
  assumes "run rs s = Inr s'" and "l2_dirty_since (l2_cache b) (l2_cache s)"
  shows "l2_dirty_since (l2_cache (before_last_initialize rs s b)) (l2_cache s')"
  using assms
proof (induction rs arbitrary: s b)
  case Nil
  then show ?case by simp
next
  case (Cons r rs)
  then obtain s1 where s1: "step r s = Inr s1" and rest: "run rs s1 = Inr s'"
    by (auto split: sum.splits)
  show ?case
  proof (cases "is_Initialize r")
    case True
    have "l2_dirty_since (l2_cache s) (l2_cache s1)"
      by (rule step_Initialize_dirty_since [OF s1 True])
    from Cons.IH [OF rest this] show ?thesis
      by (simp add: s1 True)
  next
    case False
    have "l2_dirty_since (l2_cache b) (l2_cache s1)"
      by (rule step_dirty_valid(2) [OF s1 False Cons.prems(2)])
    from Cons.IH [OF rest this] show ?thesis
      by (simp add: s1 False)
  qed
qed

lemma before_last_initialize_none:
  "list_all (\<lambda>r. \<not> is_Initialize r) rs \<Longrightarrow> before_last_initialize rs s b = b"
  by (induction rs arbitrary: s) (auto split: sum.splits)

lemma l2_dirty_since_clean:
  assumes "l2_dirty_since b l2" and "\<forall>i\<in>{0..<L2_NUM_CACHE_ENTRIES}. \<not> l2_dirty (b i)"
  shows "l2_dirty_valid l2"
  using assms unfolding l2_dirty_since_def l2_dirty_valid_def by blast

subsection \<open>Evaluating a run\<close>

lemma upt_8: "[0..<8] = [0, 1, 2, 3, 4, 5, 6, 7]"
  by (simp add: eval_nat_numeral)

lemmas eval_defs =
  memory_access_def memory_handle_l1_miss_def l1_miss_fetch_def l1_miss_insert_def
  memory_handle_l2_miss_def memory_subsystem_initialize_def memory_handle_clock_interrupt_def
  main_memory_access_def main_memory_initialize_def
  l1_cache_access_def l1_insert_line_def l2_cache_access_def l2_insert_line_def
  l1_curr_entry_def l1_entry_update_def
  l1_index_set_bits_def l1_tag_bits_def l1_word_offset_bits_def l2_index_bits_def l2_tag_bits_def
  l1_valid_def l1_reference_def l1_dirty_def l1_entry_tag_def
  l2_valid_def l2_dirty_def l2_entry_tag_def
  L1_VBIT_MASK_def L1_RBIT_MASK_def L1_DIRTYBIT_MASK_def L1_ENTRY_TAG_MASK_def
  WORD_OFFSET_MASK_def WORD_OFFSET_SHIFT_def L1_ADDRESS_TAG_MASK_def L1_ADDRESS_TAG_SHIFT_def
  L1_SET_INDEX_MASK_def L1_SET_INDEX_SHIFT_def L1_CACHE_HIT_MASK_def
  L2_VBIT_MASK_def L2_DIRTYBIT_MASK_def L2_ENTRY_TAG_MASK_def L2_ADDRESS_TAG_MASK_def
  L2_ADDRESS_TAG_SHIFT_def L2_INDEX_MASK_def L2_INDEX_SHIFT_def
  CACHE_LINE_ADDRESS_MASK_def READ_ENABLE_MASK_def WRITE_ENABLE_MASK_def
  WORDS_PER_CACHE_LINE_def L1_LINES_PER_SET_def L1_NUM_CACHE_SETS_def L2_NUM_CACHE_ENTRIES_def
  NULL_line_def junk_def junk_stack_def startup_def
  l1_initialize_apply l2_initialize_apply l1_clear_r_bits_apply fold_zero copy_words_apply
  upt_8 upt_4 Let_def

lemmas scenario_defs = before_fifth_access_def fetched_def l2_colliding_writes_def

text \<open>
  Claim C6, as stated, fails for L2 after a re-initialisation: \<^verbatim>\<open>l2_initialize\<close> clears the
  valid bit and leaves the dirty bit, so an entry that was dirty is then dirty and
  invalid.
\<close>

theorem dirty_after_reinitialize_counterexample:
  "case run (Initialize 0x10020 # l1_colliding_writes @ [Initialize 0x10020]) startup of
     Inl e \<Rightarrow> False
   | Inr s \<Rightarrow> l2_dirty (l2_cache s 0) \<and> \<not> l2_valid (l2_cache s 0)"
  by (simp add: l1_colliding_writes_def eval_defs del: status_test status_bit0 control_read)

text \<open>
  Claim C6, amended. In every state reached from \<^verbatim>\<open>memory_subsystem_initialize\<close> by
  \<^verbatim>\<open>memory_access\<close>, \<^verbatim>\<open>memory_handle_clock_interrupt\<close> and re-initialisation calls, every
  L1 entry with dirty=1 has valid=1, and every L2 entry with dirty=1 has valid=1 or is
  the entry as it was when the most recent \<^verbatim>\<open>memory_subsystem_initialize\<close> was called,
  dirty then, with only its valid bit cleared. In particular every L2 entry with dirty=1
  has valid=1 in the states reached from the first initialisation of the program (all
  globals zero before it) without a re-initialisation.
\<close>

theorem dirty_implies_valid:
  assumes "run (Initialize memory_size_in_bytes # rs) s0 = Inr s"
  shows "l1_dirty_valid (l1_cache s)
       \<and> (\<forall>i\<in>{0..<L2_NUM_CACHE_ENTRIES}.
            l2_dirty (l2_cache s i) \<longrightarrow>
              l2_valid (l2_cache s i)
              \<or> (let e = l2_cache (before_last_initialize
                                    (Initialize memory_size_in_bytes # rs) s0 s0) i
                 in l2_dirty e
                  \<and> l2_cache s i = e\<lparr>v_d_tag := v_d_tag e AND NOT L2_VBIT_MASK\<rparr>))
       \<and> (s0 = startup \<and> list_all (\<lambda>r. \<not> is_Initialize r) rs
            \<longrightarrow> l2_dirty_valid (l2_cache s))"
proof -
  let ?b = "before_last_initialize (Initialize memory_size_in_bytes # rs) s0 s0"
  obtain s1 where
    i: "step (Initialize memory_size_in_bytes) s0 = Inr s1"
    and r: "run rs s1 = Inr s"
    using assms by (auto split: sum.splits)
  have i': "memory_subsystem_initialize memory_size_in_bytes s0 = Inr s1"
    using i by simp
  have c: "l1_cache s1 = l1_initialize (l1_cache s0)"
    using i by (auto simp: memory_subsystem_initialize_def split: sum.splits)
  have "l1_dirty_valid (l1_cache s1)"
    unfolding c by (rule l1_initialize_dirty_valid)
  then have l1: "l1_dirty_valid (l1_cache s)"
    by (rule run_l1_dirty_valid [OF r])
  have "l2_dirty_since (l2_cache s0) (l2_cache s1)"
    by (rule step_Initialize_dirty_since [OF i]) simp
  from run_l2_dirty_since [OF r this]
  have l2: "l2_dirty_since (l2_cache ?b) (l2_cache s)"
    by (simp add: i')
  have "l2_dirty_valid (l2_cache s)"
    if "s0 = startup" and "list_all (\<lambda>r. \<not> is_Initialize r) rs"
  proof -
    have "?b = s0"
      using that(2) by (simp add: i' before_last_initialize_none)
    then have "?b = startup"
      using that(1) by simp
    moreover have "\<forall>i\<in>{0..<L2_NUM_CACHE_ENTRIES}. \<not> l2_dirty (l2_cache startup i)"
      by (simp add: startup_def l2_dirty_def)
    ultimately show ?thesis
      using l2 by (auto intro: l2_dirty_since_clean)
  qed
  with l1 l2 show ?thesis
    unfolding l2_dirty_since_def Let_def by blast
qed

theorem dirty_implies_valid_witness:
  "l1_dirty_valid (l1_cache (projr (run (Initialize 0x10020 # l1_colliding_writes) startup)))
   \<and> l2_dirty_valid (l2_cache (projr (run (Initialize 0x10020 # l1_colliding_writes) startup)))
   \<and> l2_dirty (l2_cache (projr (run (Initialize 0x10020 # l1_colliding_writes) startup)) 0)
   \<and> l2_valid (l2_cache (projr (run (Initialize 0x10020 # l1_colliding_writes) startup)) 0)
   \<and> l1_dirty_valid (l1_cache (projr (run (Initialize 0x10020 # l1_colliding_writes
                                              @ [Initialize 0x10020]) startup)))
   \<and> l2_dirty (l2_cache (projr (run (Initialize 0x10020 # l1_colliding_writes
                                       @ [Initialize 0x10020]) startup)) 0)
   \<and> \<not> l2_valid (l2_cache (projr (run (Initialize 0x10020 # l1_colliding_writes
                                         @ [Initialize 0x10020]) startup)) 0)
   \<and> l2_dirty (l2_cache (before_last_initialize (Initialize 0x10020 # l1_colliding_writes
                                                   @ [Initialize 0x10020]) startup startup) 0)
   \<and> v_d_tag (l2_cache (before_last_initialize (Initialize 0x10020 # l1_colliding_writes
                                                   @ [Initialize 0x10020]) startup startup) 0)
       = 0xC0000000
   \<and> v_d_tag (l2_cache (projr (run (Initialize 0x10020 # l1_colliding_writes
                                       @ [Initialize 0x10020]) startup)) 0)
       = 0x40000000"
proof -
  define r1 where "r1 = run (Initialize 0x10020 # l1_colliding_writes) startup"
  define r2 where
    "r2 = run (Initialize 0x10020 # l1_colliding_writes @ [Initialize 0x10020]) startup"
  define b where
    "b = before_last_initialize (Initialize 0x10020 # l1_colliding_writes
           @ [Initialize 0x10020]) startup startup"
  have "\<not> isl r1"
    unfolding r1_def
    by (simp add: l1_colliding_writes_def eval_defs del: status_test status_bit0 control_read)
  then have "r1 = Inr (projr r1)" by simp
  from dirty_implies_valid [OF this [unfolded r1_def]]
  have t1: "l1_dirty_valid (l1_cache (projr r1))"
    "list_all (\<lambda>r. \<not> is_Initialize r) l1_colliding_writes
       \<Longrightarrow> l2_dirty_valid (l2_cache (projr r1))"
    unfolding r1_def by blast+
  have "\<not> isl r2"
    unfolding r2_def
    by (simp add: l1_colliding_writes_def eval_defs del: status_test status_bit0 control_read)
  then have "r2 = Inr (projr r2)" by simp
  from dirty_implies_valid [OF this [unfolded r2_def]]
  have t2: "l1_dirty_valid (l1_cache (projr r2))"
    "\<And>i. i \<in> {0..<L2_NUM_CACHE_ENTRIES} \<Longrightarrow> l2_dirty (l2_cache (projr r2) i)
       \<Longrightarrow> \<not> l2_valid (l2_cache (projr r2) i) \<Longrightarrow> l2_dirty (l2_cache b i)"
    unfolding r2_def b_def Let_def by blast+
  have n: "list_all (\<lambda>r. \<not> is_Initialize r) l1_colliding_writes"
    by (simp add: l1_colliding_writes_def)
  have i: "(0::nat) \<in> {0..<L2_NUM_CACHE_ENTRIES}" by (simp add: L2_NUM_CACHE_ENTRIES_def)
  have d1: "l2_dirty (l2_cache (projr r1) 0)"
    unfolding r1_def
    by (simp add: l1_colliding_writes_def eval_defs del: status_test status_bit0 control_read)
  have v1: "l2_valid (l2_cache (projr r1) 0)"
    using t1(2) [OF n] d1 i unfolding l2_dirty_valid_def by blast
  have d2: "v_d_tag (l2_cache (projr r2) 0) = 0x40000000"
    unfolding r2_def
    by (simp add: l1_colliding_writes_def eval_defs del: status_test status_bit0 control_read)
  have vb: "v_d_tag (l2_cache b 0) = 0xC0000000"
    unfolding b_def
    by (simp add: l1_colliding_writes_def eval_defs del: status_test status_bit0 control_read)
  have g: "l2_dirty e \<and> \<not> l2_valid e" if "v_d_tag e = 0x40000000" for e
    using that by (simp add: l2_dirty_def l2_valid_def L2_DIRTYBIT_MASK_def L2_VBIT_MASK_def)
  note f = g [OF d2]
  have db: "l2_dirty (l2_cache b 0)"
    using t2(2) [OF i] f by blast
  from t1(1) t1(2) [OF n] d1 v1 t2(1) f db vb d2 show ?thesis
    unfolding r1_def r2_def b_def by blast
qed

section \<open>Writing an evicted L1 line to L2\<close>

lemma enable_masks_nonzero: "READ_ENABLE_MASK \<noteq> 0" "WRITE_ENABLE_MASK \<noteq> 0"
  by (simp_all add: READ_ENABLE_MASK_def WRITE_ENABLE_MASK_def)

lemma l2_cache_access_after_insert:
  assumes "l2_valid (l2 (unat (l2_index_bits a)))"
    and "l2_entry_tag (l2 (unat (l2_index_bits a))) = l2_tag_bits a"
  shows "l2_cache_access a wd WRITE_ENABLE_MASK rd st l2 =
           (l2(unat (l2_index_bits a) :=
                 \<lparr>v_d_tag = v_d_tag (l2 (unat (l2_index_bits a))) OR L2_DIRTYBIT_MASK,
                  l2_cache_line = copy_words WORDS_PER_CACHE_LINE wd
                                    (l2_cache_line (l2 (unat (l2_index_bits a))))\<rparr>),
            rd, st OR 1)"
  using assms by (simp add: l2_cache_access_def Let_def enable_masks_nonzero)

lemma l2_written_entry:
  fixes v :: uint32_t
  assumes "l2_valid \<lparr>v_d_tag = v, l2_cache_line = l\<rparr>"
  shows "l2_valid \<lparr>v_d_tag = v OR L2_DIRTYBIT_MASK, l2_cache_line = l'\<rparr>"
    and "l2_dirty \<lparr>v_d_tag = v OR L2_DIRTYBIT_MASK, l2_cache_line = l'\<rparr>"
    and "l2_entry_tag \<lparr>v_d_tag = v OR L2_DIRTYBIT_MASK, l2_cache_line = l'\<rparr>
          = l2_entry_tag \<lparr>v_d_tag = v, l2_cache_line = l\<rparr>"
proof -
  show "l2_valid \<lparr>v_d_tag = v OR L2_DIRTYBIT_MASK, l2_cache_line = l'\<rparr>"
    using assms by (simp add: l2_valid_bit word_bits mask_bits)
  show "l2_dirty \<lparr>v_d_tag = v OR L2_DIRTYBIT_MASK, l2_cache_line = l'\<rparr>"
    by (simp add: l2_dirty_bit word_bits mask_bits)
  show "l2_entry_tag \<lparr>v_d_tag = v OR L2_DIRTYBIT_MASK, l2_cache_line = l'\<rparr>
          = l2_entry_tag \<lparr>v_d_tag = v, l2_cache_line = l\<rparr>"
    unfolding l2_entry_tag_def
    by (simp, rule bit_word_eqI) (auto simp: word_bits mask_bits)
qed

text \<open>After the L2 miss handler the entry of the address is valid and has its tag.\<close>

lemma memory_handle_l2_miss_entry:
  assumes "memory_handle_l2_miss loc a control s = Inr s'"
  shows "\<exists>l. l2_cache s' (unat (l2_index_bits a))
            = \<lparr>v_d_tag = L2_VBIT_MASK OR l2_tag_bits a, l2_cache_line = l\<rparr>"
  using assms
  by (auto simp: memory_handle_l2_miss_def l2_insert_line_def Let_def
      split: sum.splits prod.splits if_splits)

text \<open>
  Claim C2 says that when \<^verbatim>\<open>l1_insert_line\<close> asks for a write-back and the write of the
  evicted line misses in L2, the write is retried with the evicted line, so that the L2
  entry of the evicted address then holds the evicted line. The source retries with
  \<^verbatim>\<open>read_data\<close>, the line fetched for the address that missed in L1: whenever this path
  returns, the L2 entry of the evicted address is valid and dirty, has the tag of the
  evicted address, and holds the words of \<^verbatim>\<open>read_data\<close>.
\<close>

theorem l1_miss_insert_retry_writes_read_data:
  "case l1_insert_line address read_data (evicted_writeback_address_0 loc)
          (evicted_writeback_data_0 loc) status (l1_cache s) of
     (l1', evicted_writeback_address, evicted_writeback_data, status1) \<Rightarrow>
       bit status1 0
       \<and> \<not> bit (snd (snd (l2_cache_access evicted_writeback_address evicted_writeback_data
                              WRITE_ENABLE_MASK (temp_0 loc) status1 (l2_cache s)))) 0
       \<longrightarrow> (case l1_miss_insert loc loc_w address read_data status s of
              Inl e \<Rightarrow> True
            | Inr s2 \<Rightarrow>
                let e = l2_cache s2 (unat (l2_index_bits evicted_writeback_address))
                in l2_valid e \<and> l2_dirty e
                 \<and> l2_entry_tag e = l2_tag_bits evicted_writeback_address
                 \<and> line_words (l2_cache_line e) = line_words read_data)"
proof -
  obtain l1' ea ed st1 where
    a: "l1_insert_line address read_data (evicted_writeback_address_0 loc)
          (evicted_writeback_data_0 loc) status (l1_cache s) = (l1', ea, ed, st1)"
    by (cases "l1_insert_line address read_data (evicted_writeback_address_0 loc)
          (evicted_writeback_data_0 loc) status (l1_cache s)") auto
  obtain l2a temp st2 where
    b: "l2_cache_access ea ed WRITE_ENABLE_MASK (temp_0 loc) st1 (l2_cache s) = (l2a, temp, st2)"
    by (cases "l2_cache_access ea ed WRITE_ENABLE_MASK (temp_0 loc) st1 (l2_cache s)") auto
  have "l2_valid (l2_cache s2 (unat (l2_index_bits ea)))
      \<and> l2_dirty (l2_cache s2 (unat (l2_index_bits ea)))
      \<and> l2_entry_tag (l2_cache s2 (unat (l2_index_bits ea))) = l2_tag_bits ea
      \<and> line_words (l2_cache_line (l2_cache s2 (unat (l2_index_bits ea))))
          = line_words read_data"
    if wb: "bit st1 0" and miss: "\<not> bit st2 0"
      and i: "l1_miss_insert loc loc_w address read_data status s = Inr s2" for s2
  proof -
    obtain s3 where
      h: "memory_handle_l2_miss loc_w ea WRITE_ENABLE_MASK
            (s\<lparr>l1_cache := l1', l2_cache := l2a\<rparr>) = Inr s3"
      and s2: "l2_cache s2 = fst (l2_cache_access ea read_data WRITE_ENABLE_MASK temp st2
                                   (l2_cache s3))"
      using i wb miss
      by (auto simp: l1_miss_insert_def a b split: sum.splits prod.splits)
    obtain l where
      e: "l2_cache s3 (unat (l2_index_bits ea))
            = \<lparr>v_d_tag = L2_VBIT_MASK OR l2_tag_bits ea, l2_cache_line = l\<rparr>"
      using memory_handle_l2_miss_entry [OF h] by blast
    have v: "l2_valid (l2_cache s3 (unat (l2_index_bits ea)))"
      and t: "l2_entry_tag (l2_cache s3 (unat (l2_index_bits ea))) = l2_tag_bits ea"
      unfolding e by (simp_all add: l2_fresh_valid l2_fresh_tag)
    show ?thesis
      unfolding s2
      using l2_cache_access_after_insert [of "l2_cache s3" ea read_data temp st2] v t
        l2_written_entry [OF l2_fresh_valid [of ea l]]
      by (simp add: e l2_fresh_tag)
  qed
  then show ?thesis
    unfolding a b by (auto simp: b Let_def split: sum.splits)
qed

text \<open>
  The path is reached: in the second scenario the evicted line is that of address 0 with
  \<^verbatim>\<open>0xAAAA\<close> in word 0, the line fetched for \<^verbatim>\<open>0x400000\<close> is all zero, and the L2 entry
  of address 0 ends up all zero.
\<close>

theorem l1_miss_insert_retry_writes_read_data_witness:
  "line_words (fst (snd fetched)) = [0, 0, 0, 0, 0, 0, 0, 0]
   \<and> (case l1_insert_line 0x400000 (fst (snd fetched)) (evicted_writeback_address_0 junk)
              (evicted_writeback_data_0 junk) (snd (snd fetched)) (l1_cache (fst fetched)) of
         (l1', evicted_writeback_address, evicted_writeback_data, status1) \<Rightarrow>
           bit status1 0 \<and> evicted_writeback_address = 0
         \<and> line_words evicted_writeback_data = [0xAAAA, 0, 0, 0, 0, 0, 0, 0]
         \<and> \<not> bit (snd (snd (l2_cache_access evicted_writeback_address evicted_writeback_data
                                 WRITE_ENABLE_MASK (temp_0 junk) status1
                                 (l2_cache (fst fetched))))) 0)
   \<and> (case l1_miss_insert junk junk 0x400000 (fst (snd fetched)) (snd (snd fetched))
              (fst fetched) of
         Inl e \<Rightarrow> False
       | Inr s2 \<Rightarrow>
           l2_valid (l2_cache s2 0) \<and> l2_dirty (l2_cache s2 0) \<and> l2_entry_tag (l2_cache s2 0) = 0
         \<and> line_words (l2_cache_line (l2_cache s2 0)) = [0, 0, 0, 0, 0, 0, 0, 0])"
  using l1_miss_insert_retry_writes_read_data [where address = "0x400000"
      and read_data = "fst (snd fetched)" and loc = junk and loc_w = junk
      and status = "snd (snd fetched)" and s = "fst fetched"]
  by (simp add: scenario_defs line_words_unfold eval_defs
      del: status_test status_bit0 control_read)

section \<open>Reading back what was written\<close>

text \<open>
  Claim C1 says that a write of \<open>W\<close> to an address followed by a read of the address
  returns \<open>W\<close>, whatever accesses to other addresses come in between. In the second
  scenario \<^verbatim>\<open>0xAAAA\<close> is written to address 0, three more writes and one read go to other
  addresses, and the read of address 0 returns 0: the write-back of the line of address 0
  misses in L2 and the retry stores the wrong line there.
\<close>

theorem round_trip_lost_after_l2_conflict:
  "case run (Initialize 0x400020 # l2_colliding_writes @ [Access junk_stack 0x400000 0 1 0])
          startup of
     Inl e \<Rightarrow> False
   | Inr s \<Rightarrow>
       (case memory_access junk_stack 0 0 1 0x5555 s of
          Inl e \<Rightarrow> False
        | Inr (s', read_data) \<Rightarrow> read_data = 0)"
  by (simp add: scenario_defs eval_defs del: status_test status_bit0 control_read)

theorem round_trip_lost_after_l2_conflict_witness:
  "snd (projr (memory_access junk_stack 0 0 1 0x5555
         (projr (run (Initialize 0x400020 # l2_colliding_writes
                        @ [Access junk_stack 0x400000 0 1 0]) startup))))
     \<noteq> 0xAAAA"
  using round_trip_lost_after_l2_conflict
  by (auto split: sum.splits prod.splits)

section \<open>Every array access is in bounds\<close>

text \<open>
  The model reads arrays as total functions. These facts show that the indices the source
  computes are inside the arrays: the set index, the way and the word offset in L1
  (\<open>unat_l1_index_set_bits\<close>, \<open>l1_selected_way_less\<close>), the entry index in L2
  (\<open>unat_l2_index_bits\<close>), and the eight words of a line of main memory whenever the
  address passed the bounds check and the size is a multiple of 32. The \<^verbatim>\<open>NULL\<close> passed
  as \<^verbatim>\<open>write_data\<close> of a read from L2 is never read.
\<close>

lemma unat_l1_word_offset_bits: "unat (l1_word_offset_bits address) < WORDS_PER_CACHE_LINE"
proof -
  have m: "WORD_OFFSET_MASK = push_bit 2 (mask 3)"
    by (simp add: WORD_OFFSET_MASK_def mask_eq_exp_minus_1)
  have "l1_word_offset_bits address = take_bit 3 (drop_bit 2 address)"
    unfolding l1_word_offset_bits_def WORD_OFFSET_SHIFT_def m
    by (rule bit_word_eqI) (auto simp: word_bits bit_mask_iff bit_take_bit_iff)
  moreover have "unat (take_bit 3 (drop_bit 2 address)) < 2 ^ 3"
    by (simp add: unsigned_take_bit_eq take_bit_nat_def)
  ultimately show ?thesis by (simp add: WORDS_PER_CACHE_LINE_def)
qed

lemma l2_cache_access_read_only:
  "l2_cache_access address write_data READ_ENABLE_MASK read_data status l2
     = l2_cache_access address NULL_line READ_ENABLE_MASK read_data status l2"
  by (simp add: l2_cache_access_def Let_def)

lemma bit_CACHE_LINE_ADDRESS_MASK: "bit CACHE_LINE_ADDRESS_MASK n \<longleftrightarrow> 5 \<le> n \<and> n < 32"
proof -
  have m: "(0x1f :: uint32_t) = mask 5" by (simp add: mask_eq_exp_minus_1)
  show ?thesis
    unfolding CACHE_LINE_ADDRESS_MASK_def m by (auto simp: bit_simps)
qed

lemma line_start_word:
  "drop_bit 2 (address AND CACHE_LINE_ADDRESS_MASK) = push_bit 3 (drop_bit 5 address)"
  by (rule bit_word_eqI)
     (auto simp: bit_and_iff bit_drop_bit_eq bit_push_bit_iff bit_CACHE_LINE_ADDRESS_MASK
        dest: bit_imp_le_length)

lemma unat_line_start:
  "unat (drop_bit 2 (address AND CACHE_LINE_ADDRESS_MASK)) = 8 * (unat address div 32)"
proof -
  have "unat address < 2 ^ 32" using unsigned_less [of address, where ?'a = nat] by simp
  then have lt: "8 * (unat address div 32) < 2 ^ 32" by simp
  have "unat (push_bit 3 (drop_bit 5 address)) = take_bit 32 (push_bit 3 (drop_bit 5 (unat address)))"
    by (simp only: unsigned_push_bit_eq unat_drop_bit_eq) simp
  also have "\<dots> = take_bit 32 (8 * (unat address div 32))"
    by (simp add: push_bit_eq_mult drop_bit_eq_div mult.commute)
  also have "\<dots> = 8 * (unat address div 32)"
    using lt by (simp only: take_bit_nat_eq_self)
  finally show ?thesis by (simp only: line_start_word)
qed

lemma main_memory_size_multiple:
  "size_in_bytes AND 0x1F = 0 \<Longrightarrow> 32 dvd unat size_in_bytes"
  for size_in_bytes :: uint32_t
proof -
  assume a: "size_in_bytes AND 0x1F = 0"
  have m: "(0x1F :: uint32_t) = mask 5" by (simp add: mask_eq_exp_minus_1)
  have "take_bit 5 size_in_bytes = 0" using a unfolding m by (simp add: take_bit_eq_mask)
  then have "take_bit 5 (unat size_in_bytes) = 0"
    by (metis unsigned_0 unsigned_take_bit_eq)
  then show ?thesis by (simp add: take_bit_eq_mod mod_eq_0_iff_dvd)
qed

lemma main_memory_access_in_bounds:
  fixes address size_in_bytes :: uint32_t
  assumes "size_in_bytes AND 0x1F = 0" and "address < size_in_bytes" and "i < 8"
  shows "unat (drop_bit 2 (address AND CACHE_LINE_ADDRESS_MASK) + word_of_nat i)
           < unat (size_in_bytes div 4)"
proof -
  let ?a = "drop_bit 2 (address AND CACHE_LINE_ADDRESS_MASK)"
  obtain k where k: "unat size_in_bytes = 32 * k"
    using main_memory_size_multiple [OF assms(1)] by (rule dvdE)
  have lt: "unat address < 32 * k" using assms(2) k by (simp add: word_less_nat_alt)
  have "unat size_in_bytes < 2 ^ 32" using unsigned_less [of size_in_bytes, where ?'a = nat] by simp
  then have s: "32 * k < 2 ^ 32" using k by simp
  have d: "unat address div 32 < k" using lt by (simp add: div_less_iff_less_mult mult.commute)
  then have b: "8 * (unat address div 32) + i < 8 * k" using assms(3) by simp
  have i: "unat (word_of_nat i :: uint32_t) = i"
    using assms(3) by (simp add: unat_of_nat take_bit_nat_eq_self)
  have "unat ?a + unat (word_of_nat i :: uint32_t) < 2 ^ 32"
    unfolding unat_line_start i using b s by simp
  then have "unat (?a + word_of_nat i) = unat ?a + unat (word_of_nat i :: uint32_t)"
    using unat_add_lem [of ?a "word_of_nat i"] by simp
  then have "unat (?a + word_of_nat i) = 8 * (unat address div 32) + i"
    by (simp only: unat_line_start i)
  moreover have "unat (size_in_bytes div 4) = 8 * k"
    by (simp add: unat_div k)
  ultimately show ?thesis using b by simp
qed

end
